theory Spec2Isabelle
  imports Complex_Main "HOL-Library.Word" "HOL-Library.Code_Target_Numeral"
begin

section \<open>ProMis raster bands: the data model\<close>

text \<open>
  A shallow embedding of \<^verbatim>\<open>src/promis/geo/raster_band.py\<close>. Python floats are
  modelled as exact reals, so every statement below is about the arithmetic the code
  writes down, not about its rounding. Exceptions are values of \<open>error\<close>, returned on
  the left of a sum.
\<close>

datatype error = ZeroDivisionError | KeyError | IndexError | ValueError

text \<open>\<^verbatim>\<open>CartesianLocation(east, north)\<close>: a point of the local metric system.\<close>

record cartesian_location =
  east :: real
  north :: real

text \<open>
  A two-dimensional numpy array: its shape and its cells. Cells outside the shape are
  never read by the model; \<open>getitem\<close> and \<open>setitem\<close> raise there, as numpy does.
\<close>

record ndarray =
  shape0 :: nat
  shape1 :: nat
  item :: "nat \<Rightarrow> nat \<Rightarrow> real"

definition zeros :: "nat \<times> nat \<Rightarrow> ndarray" where
  "zeros resolution = \<lparr>shape0 = fst resolution, shape1 = snd resolution, item = (\<lambda>i j. 0)\<rparr>"

text \<open>\<^verbatim>\<open>array([[..], ..])\<close> of a nested list whose rows have the length of the first.\<close>

definition array :: "real list list \<Rightarrow> ndarray" where
  "array rows =
     \<lparr>shape0 = length rows,
      shape1 = (case rows of [] \<Rightarrow> 0 | r # _ \<Rightarrow> length r),
      item = (\<lambda>i j. rows ! i ! j)\<rparr>"

definition getitem :: "ndarray \<Rightarrow> nat \<times> nat \<Rightarrow> error + real" where
  "getitem a index =
     (if fst index < shape0 a \<and> snd index < shape1 a
      then Inr (item a (fst index) (snd index)) else Inl IndexError)"

definition setitem :: "ndarray \<Rightarrow> nat \<times> nat \<Rightarrow> real \<Rightarrow> error + ndarray" where
  "setitem a index v =
     (if fst index < shape0 a \<and> snd index < shape1 a
      then Inr (a\<lparr>item := (item a)(fst index := (item a (fst index))(snd index := v))\<rparr>)
      else Inl IndexError)"

text \<open>
  The slice \<^verbatim>\<open>a[r0:r1, c0:c1]\<close> for bounds that are not negative; numpy clips
  them to the shape.
\<close>

definition slice_nd :: "ndarray \<Rightarrow> nat \<Rightarrow> nat \<Rightarrow> nat \<Rightarrow> nat \<Rightarrow> ndarray" where
  "slice_nd a r0 r1 c0 c1 =
     \<lparr>shape0 = min r1 (shape0 a) - min r0 (shape0 a),
      shape1 = min c1 (shape1 a) - min c0 (shape1 a),
      item = (\<lambda>i j. item a (i + r0) (j + c0))\<rparr>"

text \<open>
  The raster band. The geodetic location type \<open>'p\<close> (\<^verbatim>\<open>PolarLocation\<close>) and the
  conversion \<^verbatim>\<open>CartesianLocation.to_polar\<close> live in modules that are not part of
  the sources at hand, so the type is a parameter of the record and the conversion
  \<open>to_polar\<close> a parameter of every operation that calls it.
\<close>

record 'p raster_band =
  data :: ndarray
  origin :: 'p
  width :: real
  height :: real
  pixel_width :: real
  pixel_height :: real
  center_x :: real
  center_y :: real
  cartesian_locations :: "nat \<times> nat \<rightharpoonup> cartesian_location"
  polar_locations :: "nat \<times> nat \<rightharpoonup> 'p"

text \<open>Python's \<^verbatim>\<open>x / n\<close> for a float \<open>x\<close> and an int \<open>n\<close>.\<close>

definition truediv :: "real \<Rightarrow> nat \<Rightarrow> error + real" where
  "truediv x n = (if n = 0 then Inl ZeroDivisionError else Inr (x / real n))"

text \<open>Python's float \<^verbatim>\<open>x % m\<close> for \<open>m \<noteq> 0\<close>: the remainder has the sign of \<open>m\<close>.\<close>

definition float_mod :: "real \<Rightarrow> real \<Rightarrow> real" where
  "float_mod x m = x - m * of_int \<lfloor>x / m\<rfloor>"

text \<open>\<^verbatim>\<open>product(range(w), range(h))\<close>: the first index is the outer one.\<close>

definition indices :: "nat \<Rightarrow> nat \<Rightarrow> (nat \<times> nat) list" where
  "indices w h = List.product [0..<w] [0..<h]"

text \<open>A dict comprehension \<^verbatim>\<open>{k: f(k) for k in keys}\<close>: a later key overwrites.\<close>

definition dict_of :: "('k \<Rightarrow> 'v) \<Rightarrow> 'k list \<Rightarrow> ('k \<rightharpoonup> 'v)" where
  "dict_of f keys = fold (\<lambda>k m. m(k \<mapsto> f k)) keys Map.empty"

section \<open>Coordinate transform\<close>

definition index_to_cartesian :: "'p raster_band \<Rightarrow> nat \<times> nat \<Rightarrow> cartesian_location" where
  "index_to_cartesian self index =
     \<lparr>east = (pixel_width self / 2) + real (fst index) * pixel_width self - center_x self,
      north = - ((pixel_height self / 2) + real (snd index) * pixel_height self)
                + center_y self\<rparr>"

definition index_to_polar ::
  "(cartesian_location \<Rightarrow> 'p \<Rightarrow> 'p) \<Rightarrow> 'p raster_band \<Rightarrow> nat \<times> nat \<Rightarrow> 'p" where
  "index_to_polar to_polar self index = to_polar (index_to_cartesian self index) (origin self)"

section \<open>Construction\<close>

text \<open>
  \<^verbatim>\<open>RasterBand.__init__\<close>. The two divisions by the shape are the only places
  where it can raise; the attributes are assigned in the order of the source, the two
  location dicts last, each computed from the object built so far.
\<close>

definition RasterBand_init ::
  "(cartesian_location \<Rightarrow> 'p \<Rightarrow> 'p) \<Rightarrow> ndarray \<Rightarrow> 'p \<Rightarrow> real \<Rightarrow> real
     \<Rightarrow> error + 'p raster_band" where
  "RasterBand_init to_polar d org w h =
     (case truediv w (shape0 d) of
        Inl e \<Rightarrow> Inl e
      | Inr pw \<Rightarrow>
          (case truediv h (shape1 d) of
             Inl e \<Rightarrow> Inl e
           | Inr ph \<Rightarrow>
               (let self = \<lparr>data = d, origin = org, width = w, height = h,
                            pixel_width = pw, pixel_height = ph,
                            center_x = w / 2, center_y = h / 2,
                            cartesian_locations = Map.empty,
                            polar_locations = Map.empty\<rparr>;
                    self = self\<lparr>cartesian_locations :=
                             dict_of (index_to_cartesian self)
                               (indices (shape0 d) (shape1 d))\<rparr>;
                    self = self\<lparr>polar_locations :=
                             dict_of (index_to_polar to_polar self)
                               (indices (shape0 d) (shape1 d))\<rparr>
                in Inr self)))"

section \<open>Mixture rasterizer\<close>

text \<open>
  A component of a \<^verbatim>\<open>GaussianMixture\<close>: its weight and its joint cumulative
  distribution function. The class is not among the sources at hand; the code only
  reads \<^verbatim>\<open>gaussian.weight\<close> and calls \<^verbatim>\<open>gaussian.cdf(point)\<close>, taken here as
  a function of the point.
\<close>

record gaussian =
  weight :: real
  cdf :: "real \<times> real \<Rightarrow> real"

text \<open>
  Modelled from the spec: \<^verbatim>\<open>CartesianLocation.to_numpy\<close> is missing from the
  sources; the spec takes the corners of a cell as its center plus or minus half a pixel
  in each axis, so the column vector is (east, north). Column vectors are pairs.
\<close>

definition to_numpy :: "cartesian_location \<Rightarrow> real \<times> real" where
  "to_numpy location = (east location, north location)"

definition vstack :: "real \<Rightarrow> real \<Rightarrow> real \<times> real" where
  "vstack x y = (x, y)"

definition scale_vector :: "real \<Rightarrow> real \<times> real \<Rightarrow> real \<times> real" where
  "scale_vector c v = (c * fst v, c * snd v)"

definition add_vector :: "real \<times> real \<Rightarrow> real \<times> real \<Rightarrow> real \<times> real" where
  "add_vector u v = (fst u + fst v, snd u + snd v)"

definition top_right_vector :: "'p raster_band \<Rightarrow> real \<times> real" where
  "top_right_vector rb = scale_vector (1 / 2) (vstack (pixel_width rb) (pixel_height rb))"

definition top_left_vector :: "'p raster_band \<Rightarrow> real \<times> real" where
  "top_left_vector rb = scale_vector (1 / 2) (vstack (- pixel_width rb) (pixel_height rb))"

definition bottom_right_vector :: "'p raster_band \<Rightarrow> real \<times> real" where
  "bottom_right_vector rb = scale_vector (1 / 2) (vstack (pixel_width rb) (- pixel_height rb))"

definition bottom_left_vector :: "'p raster_band \<Rightarrow> real \<times> real" where
  "bottom_left_vector rb = scale_vector (1 / 2) (vstack (- pixel_width rb) (- pixel_height rb))"

text \<open>
  The state of the loop over the cells of one component: the dict \<^verbatim>\<open>cdf_raster\<close>
  and, as a record of the calls made, the points at which \<^verbatim>\<open>gaussian.cdf\<close> was
  evaluated, in order.
\<close>

record cdf_state =
  cdf_raster :: "real \<times> real \<rightharpoonup> real"
  cdf_calls :: "(real \<times> real) list"

definition empty_cdf_state :: cdf_state where
  "empty_cdf_state = \<lparr>cdf_raster = Map.empty, cdf_calls = []\<rparr>"

text \<open>\<^verbatim>\<open>if key not in cdf_raster: cdf_raster[key] = gaussian.cdf(key)\<close>\<close>

definition cache_cdf :: "gaussian \<Rightarrow> real \<times> real \<Rightarrow> cdf_state \<Rightarrow> cdf_state" where
  "cache_cdf g key s =
     (case cdf_raster s key of
        None \<Rightarrow> s\<lparr>cdf_raster := (cdf_raster s)(key \<mapsto> cdf g key),
                    cdf_calls := cdf_calls s @ [key]\<rparr>
      | Some v \<Rightarrow> s)"

text \<open>The body of the inner loop, for one index.\<close>

definition pixel_step ::
  "'p raster_band \<Rightarrow> gaussian \<Rightarrow> nat \<times> nat \<Rightarrow> cdf_state \<times> ndarray
     \<Rightarrow> error + (cdf_state \<times> ndarray)" where
  "pixel_step raster_band g index st =
     (case cartesian_locations raster_band index of
        None \<Rightarrow> Inl KeyError
      | Some loc \<Rightarrow>
          (let location = to_numpy loc;
               top_right = add_vector location (top_right_vector raster_band);
               top_left = add_vector location (top_left_vector raster_band);
               bottom_right = add_vector location (bottom_right_vector raster_band);
               bottom_left = add_vector location (bottom_left_vector raster_band);
               s = cache_cdf g top_right (fst st);
               s = cache_cdf g top_left s;
               s = cache_cdf g bottom_right s;
               s = cache_cdf g bottom_left s
           in (case cdf_raster s top_right of None \<Rightarrow> Inl KeyError | Some cdf_tr \<Rightarrow>
              (case cdf_raster s top_left of None \<Rightarrow> Inl KeyError | Some cdf_tl \<Rightarrow>
              (case cdf_raster s bottom_right of None \<Rightarrow> Inl KeyError | Some cdf_br \<Rightarrow>
              (case cdf_raster s bottom_left of None \<Rightarrow> Inl KeyError | Some cdf_bl \<Rightarrow>
              (case setitem (snd st) index (weight g * (cdf_tr - cdf_tl - cdf_br + cdf_bl)) of
                 Inl e \<Rightarrow> Inl e
               | Inr probabilities_i \<Rightarrow> Inr (s, probabilities_i))))))))"

fun pixel_loop ::
  "'p raster_band \<Rightarrow> gaussian \<Rightarrow> (nat \<times> nat) list \<Rightarrow> cdf_state \<times> ndarray
     \<Rightarrow> error + (cdf_state \<times> ndarray)" where
  "pixel_loop raster_band g [] st = Inr st"
| "pixel_loop raster_band g (index # rest) st =
     (case pixel_step raster_band g index st of
        Inl e \<Rightarrow> Inl e
      | Inr st' \<Rightarrow> pixel_loop raster_band g rest st')"

text \<open>
  The outer loop: \<^verbatim>\<open>probabilities[i]\<close> starts as zeros of the resolution and the
  dict starts empty for every component.
\<close>

fun mixture_loop ::
  "'p raster_band \<Rightarrow> gaussian list \<Rightarrow> nat \<times> nat \<Rightarrow> error + (cdf_state \<times> ndarray) list" where
  "mixture_loop raster_band [] resolution = Inr []"
| "mixture_loop raster_band (g # gs) resolution =
     (case pixel_loop raster_band g (indices (fst resolution) (snd resolution))
             (empty_cdf_state, zeros resolution) of
        Inl e \<Rightarrow> Inl e
      | Inr r \<Rightarrow>
          (case mixture_loop raster_band gs resolution of
             Inl e \<Rightarrow> Inl e
           | Inr rs \<Rightarrow> Inr (r # rs)))"

text \<open>\<^verbatim>\<open>sum(probabilities, axis=0)\<close> of a stack of arrays of one resolution.\<close>

definition sum_axis0 :: "nat \<times> nat \<Rightarrow> ndarray list \<Rightarrow> ndarray" where
  "sum_axis0 resolution probabilities =
     \<lparr>shape0 = fst resolution, shape1 = snd resolution,
      item = (\<lambda>i j. sum_list (map (\<lambda>p. item p i j) probabilities))\<rparr>"

definition from_gaussian_mixture ::
  "(cartesian_location \<Rightarrow> 'p \<Rightarrow> 'p) \<Rightarrow> gaussian list \<Rightarrow> 'p \<Rightarrow> real \<Rightarrow> real \<Rightarrow> nat \<times> nat
     \<Rightarrow> error + 'p raster_band" where
  "from_gaussian_mixture to_polar gaussian_mixture org w h resolution =
     (case RasterBand_init to_polar (zeros resolution) org w h of
        Inl e \<Rightarrow> Inl e
      | Inr raster_band \<Rightarrow>
          (case mixture_loop raster_band gaussian_mixture resolution of
             Inl e \<Rightarrow> Inl e
           | Inr rs \<Rightarrow> Inr (raster_band\<lparr>data := sum_axis0 resolution (map snd rs)\<rparr>)))"

text \<open>The points at which some component's CDF was evaluated during the same run.\<close>

definition from_gaussian_mixture_cdf_calls ::
  "(cartesian_location \<Rightarrow> 'p \<Rightarrow> 'p) \<Rightarrow> gaussian list \<Rightarrow> 'p \<Rightarrow> real \<Rightarrow> real \<Rightarrow> nat \<times> nat
     \<Rightarrow> error + (real \<times> real) list" where
  "from_gaussian_mixture_cdf_calls to_polar gaussian_mixture org w h resolution =
     (case RasterBand_init to_polar (zeros resolution) org w h of
        Inl e \<Rightarrow> Inl e
      | Inr raster_band \<Rightarrow>
          (case mixture_loop raster_band gaussian_mixture resolution of
             Inl e \<Rightarrow> Inl e
           | Inr rs \<Rightarrow> Inr (concat (map (\<lambda>r. cdf_calls (fst r)) rs))))"

text \<open>
  The value the mixture rasterizer is meant to give at a cell whose center is \<open>c\<close>,
  with every CDF evaluated directly at the four corners.
\<close>

definition cell_mass :: "gaussian \<Rightarrow> cartesian_location \<Rightarrow> real \<Rightarrow> real \<Rightarrow> real" where
  "cell_mass g c pw ph =
     weight g * (cdf g (east c + pw / 2, north c + ph / 2)
               - cdf g (east c - pw / 2, north c + ph / 2)
               - cdf g (east c + pw / 2, north c - ph / 2)
               + cdf g (east c - pw / 2, north c - ph / 2))"

section \<open>Quadtree splitter\<close>

datatype 'p split_result = Unsplit "'p raster_band" | Quadrants "'p raster_band list list"

text \<open>
  The eight local variables of \<^verbatim>\<open>split\<close>. The source tests the parity of the
  physical extent, \<^verbatim>\<open>self.width % 2 != 0\<close> and \<^verbatim>\<open>self.height % 2 != 0\<close>.
\<close>

definition left_width :: "'p raster_band \<Rightarrow> real" where
  "left_width self =
     (if float_mod (width self) 2 \<noteq> 0 then (width self - pixel_width self) / 2
      else width self / 2)"

definition right_width :: "'p raster_band \<Rightarrow> real" where
  "right_width self =
     (if float_mod (width self) 2 \<noteq> 0 then (width self + pixel_width self) / 2
      else width self / 2)"

definition origin_west :: "'p raster_band \<Rightarrow> real" where
  "origin_west self =
     (if float_mod (width self) 2 \<noteq> 0 then - (width self + pixel_width self) / 4
      else - (width self / 4))"

definition origin_east :: "'p raster_band \<Rightarrow> real" where
  "origin_east self =
     (if float_mod (width self) 2 \<noteq> 0 then (width self - pixel_width self) / 4
      else width self / 4)"

definition top_height :: "'p raster_band \<Rightarrow> real" where
  "top_height self =
     (if float_mod (height self) 2 \<noteq> 0 then (height self - pixel_height self) / 2
      else height self / 2)"

definition bottom_height :: "'p raster_band \<Rightarrow> real" where
  "bottom_height self =
     (if float_mod (height self) 2 \<noteq> 0 then (height self + pixel_height self) / 2
      else height self / 2)"

definition origin_north :: "'p raster_band \<Rightarrow> real" where
  "origin_north self =
     (if float_mod (height self) 2 \<noteq> 0 then - (height self - pixel_height self) / 4
      else - (height self / 4))"

definition origin_south :: "'p raster_band \<Rightarrow> real" where
  "origin_south self =
     (if float_mod (height self) 2 \<noteq> 0 then (height self + pixel_height self) / 4
      else height self / 4)"

text \<open>
  \<^verbatim>\<open>RasterBand.split\<close>. The four constructor calls of the returned list are
  evaluated in order; the first that raises ends the call.
\<close>

definition split ::
  "(cartesian_location \<Rightarrow> 'p \<Rightarrow> 'p) \<Rightarrow> 'p raster_band \<Rightarrow> error + 'p split_result" where
  "split to_polar self =
     (if shape0 (data self) = 1 \<or> shape1 (data self) = 1 then Inr (Unsplit self)
      else
        (let data_split_x = shape0 (data self) div 2;
             data_split_y = shape1 (data self) div 2
         in
          (case RasterBand_init to_polar
                  (slice_nd (data self) 0 data_split_x 0 data_split_y)
                  (to_polar \<lparr>east = origin_west self, north = origin_south self\<rparr> (origin self))
                  (left_width self) (top_height self) of
             Inl e \<Rightarrow> Inl e
           | Inr q00 \<Rightarrow>
          (case RasterBand_init to_polar
                  (slice_nd (data self) 0 data_split_x data_split_y (shape1 (data self)))
                  (to_polar \<lparr>east = origin_west self, north = origin_north self\<rparr> (origin self))
                  (left_width self) (bottom_height self) of
             Inl e \<Rightarrow> Inl e
           | Inr q01 \<Rightarrow>
          (case RasterBand_init to_polar
                  (slice_nd (data self) data_split_x (shape0 (data self)) 0 data_split_y)
                  (to_polar \<lparr>east = origin_east self, north = origin_south self\<rparr> (origin self))
                  (right_width self) (top_height self) of
             Inl e \<Rightarrow> Inl e
           | Inr q10 \<Rightarrow>
          (case RasterBand_init to_polar
                  (slice_nd (data self) data_split_x (shape0 (data self))
                     data_split_y (shape1 (data self)))
                  (to_polar \<lparr>east = origin_east self, north = origin_north self\<rparr> (origin self))
                  (right_width self) (bottom_height self) of
             Inl e \<Rightarrow> Inl e
           | Inr q11 \<Rightarrow> Inr (Quadrants [[q00, q01], [q10, q11]])))))))"

text \<open>
  Running one operation on the result of another, the first error ending the run, as
  in \<^verbatim>\<open>RasterBand(...).split()\<close>.
\<close>

definition bind_error :: "error + 'a \<Rightarrow> ('a \<Rightarrow> error + 'b) \<Rightarrow> error + 'b" where
  "bind_error r f = (case r of Inl e \<Rightarrow> Inl e | Inr x \<Rightarrow> f x)"

text \<open>The origins and the pixel sizes of the raster bands of a result of \<open>split\<close>.\<close>

definition quadrant_origins :: "'p split_result \<Rightarrow> 'p list list" where
  "quadrant_origins r =
     (case r of Unsplit rb \<Rightarrow> [[origin rb]] | Quadrants qs \<Rightarrow> map (map origin) qs)"

definition pixel_size :: "'p raster_band \<Rightarrow> real \<times> real" where
  "pixel_size rb = (pixel_width rb, pixel_height rb)"

definition quadrant_pixel_sizes :: "'p split_result \<Rightarrow> (real \<times> real) list list" where
  "quadrant_pixel_sizes r =
     (case r of Unsplit rb \<Rightarrow> [[pixel_size rb]] | Quadrants qs \<Rightarrow> map (map pixel_size) qs)"

definition cell_count :: "'p raster_band \<Rightarrow> nat" where
  "cell_count rb = shape0 (data rb) * shape1 (data rb)"

section \<open>Exporter\<close>

subsection \<open>Image export\<close>
















subsection \<open>CSV export\<close>

definition newline :: string where
  "newline = [CHR 0x0A]"

text \<open>
  \<^verbatim>\<open>f"{v:.20f}"\<close>: the value rounded to twenty decimal places, ties to even, as
  the exact value of a float is printed.
\<close>

definition digit_char :: "nat \<Rightarrow> char" where
  "digit_char n = ''0123456789'' ! n"

fun decimal :: "nat \<Rightarrow> string" where
  "decimal n = (if n < 10 then [digit_char n] else decimal (n div 10) @ [digit_char (n mod 10)])"

primrec fixed_digits :: "nat \<Rightarrow> nat \<Rightarrow> string" where
  "fixed_digits 0 n = []"
| "fixed_digits (Suc k) n = fixed_digits k (n div 10) @ [digit_char (n mod 10)]"

definition round_half_even :: "real \<Rightarrow> int" where
  "round_half_even x =
     (let f = \<lfloor>x\<rfloor>; r = x - of_int f
      in if r < 1 / 2 then f else if 1 / 2 < r then f + 1 else if even f then f else f + 1)"

definition format_20f :: "real \<Rightarrow> string" where
  "format_20f v =
     (let n = nat (round_half_even (\<bar>v\<bar> * 10 ^ 20))
      in (if v < 0 then ''-'' else [])
           @ decimal (n div 10 ^ 20) @ ''.'' @ fixed_digits 20 (n mod 10 ^ 20))"

text \<open>
  The text written for one cell. \<^verbatim>\<open>f"{polar_location.latitude}"\<close> and
  \<^verbatim>\<open>f"{polar_location.longitude}"\<close> print attributes of the absent location class:
  they are the parameters \<open>str_latitude\<close> and \<open>str_longitude\<close>.
\<close>

definition csv_row ::
  "(cartesian_location \<Rightarrow> 'p \<Rightarrow> 'p) \<Rightarrow> ('p \<Rightarrow> string) \<Rightarrow> ('p \<Rightarrow> string) \<Rightarrow> 'p raster_band
     \<Rightarrow> string option \<Rightarrow> nat \<times> nat \<Rightarrow> error + string" where
  "csv_row to_polar str_latitude str_longitude self time index =
     (let polar_location = index_to_polar to_polar self index
      in case getitem (data self) index of
           Inl e \<Rightarrow> Inl e
         | Inr v \<Rightarrow>
             Inr (str_latitude polar_location @ '', '' @ str_longitude polar_location
                    @ '', '' @ format_20f v
                    @ (case time of None \<Rightarrow> [] | Some t \<Rightarrow> '', '' @ t @ newline)
                    @ newline))"

fun csv_rows ::
  "(cartesian_location \<Rightarrow> 'p \<Rightarrow> 'p) \<Rightarrow> ('p \<Rightarrow> string) \<Rightarrow> ('p \<Rightarrow> string) \<Rightarrow> 'p raster_band
     \<Rightarrow> string option \<Rightarrow> (nat \<times> nat) list \<Rightarrow> string \<Rightarrow> error + string" where
  "csv_rows to_polar str_latitude str_longitude self time [] csv_file = Inr csv_file"
| "csv_rows to_polar str_latitude str_longitude self time (index # rest) csv_file =
     (case csv_row to_polar str_latitude str_longitude self time index of
        Inl e \<Rightarrow> Inl e
      | Inr row \<Rightarrow>
          csv_rows to_polar str_latitude str_longitude self time rest (csv_file @ row))"

text \<open>
  \<^verbatim>\<open>save_as_csv\<close>: the content of the file at \<open>path\<close> after the call, given its
  content before (\<open>None\<close> when there is no such file). Failures of the file system are
  outside the model.
\<close>

definition save_as_csv ::
  "(cartesian_location \<Rightarrow> 'p \<Rightarrow> 'p) \<Rightarrow> ('p \<Rightarrow> string) \<Rightarrow> ('p \<Rightarrow> string) \<Rightarrow> 'p raster_band
     \<Rightarrow> string option \<Rightarrow> bool \<Rightarrow> string option \<Rightarrow> error + string" where
  "save_as_csv to_polar str_latitude str_longitude self time append_flag before =
     (let csv_file = (if append_flag then (case before of None \<Rightarrow> [] | Some c \<Rightarrow> c) else []);
          header = ''latitude, longitude, value''
                     @ (if time \<noteq> None then '', datetime'' else []);
          csv_file = (if \<not> append_flag then csv_file @ header @ newline else csv_file)
      in csv_rows to_polar str_latitude str_longitude self time
           (indices (shape0 (data self)) (shape1 (data self))) csv_file)"

text \<open>The lines of a text, as \<^verbatim>\<open>readlines\<close> counts them.\<close>

fun lines_from :: "string \<Rightarrow> string \<Rightarrow> string list" where
  "lines_from cur [] = (if cur = [] then [] else [cur])"
| "lines_from cur (c # cs) =
     (if c = CHR 0x0A then cur # lines_from [] cs else lines_from (cur @ [c]) cs)"

definition file_lines :: "string \<Rightarrow> string list" where
  "file_lines s = lines_from [] s"

section \<open>Concrete geodetic locations\<close>

text \<open>
  To run the operations on concrete inputs the type parameter is instantiated with
  locations that are either given by latitude and longitude or are the result of a
  conversion, which is recorded and not computed. Every general statement below holds
  for an arbitrary conversion.
\<close>

datatype geodetic = PolarLocation real real | Converted cartesian_location geodetic

definition recorded_to_polar :: "cartesian_location \<Rightarrow> geodetic \<Rightarrow> geodetic" where
  "recorded_to_polar c anchor = Converted c anchor"

section \<open>The location caches\<close>

text \<open>
  What the two dicts of a raster band hold when they agree with the computation on
  demand: exactly the indices of the grid are keys, and each is mapped to what
  \<open>index_to_cartesian\<close> and \<open>index_to_polar\<close> return for it.
\<close>

definition locations_consistent ::
  "(cartesian_location \<Rightarrow> 'p \<Rightarrow> 'p) \<Rightarrow> 'p raster_band \<Rightarrow> bool" where
  "locations_consistent to_polar rb \<longleftrightarrow>
     (\<forall>i j. cartesian_locations rb (i, j) =
        (if i < shape0 (data rb) \<and> j < shape1 (data rb)
         then Some (index_to_cartesian rb (i, j)) else None))
     \<and> (\<forall>i j. polar_locations rb (i, j) =
        (if i < shape0 (data rb) \<and> j < shape1 (data rb)
         then Some (index_to_polar to_polar rb (i, j)) else None))"

section \<open>Construction and the coordinate transform: proofs\<close>

lemma fold_dict_update:
  "fold (\<lambda>k m. m(k \<mapsto> f k)) keys m0 k = (if k \<in> set keys then Some (f k) else m0 k)"
  by (induction keys arbitrary: m0) auto

lemma dict_of_lookup:
  "dict_of f keys k = (if k \<in> set keys then Some (f k) else None)"
  by (simp add: dict_of_def fold_dict_update)

lemma mem_indices: "(i, j) \<in> set (indices w h) \<longleftrightarrow> i < w \<and> j < h"
  by (auto simp: indices_def)

lemma index_to_cartesian_fun:
  "index_to_cartesian self =
     (\<lambda>index. \<lparr>east = (pixel_width self / 2) + real (fst index) * pixel_width self - center_x self,
      north = - ((pixel_height self / 2) + real (snd index) * pixel_height self)
                + center_y self\<rparr>)"
  by (simp add: fun_eq_iff index_to_cartesian_def)

lemma index_to_polar_fun:
  "index_to_polar tp self = (\<lambda>index. tp (index_to_cartesian self index) (origin self))"
  by (simp add: fun_eq_iff index_to_polar_def)

lemma init_error:
  "shape0 d = 0 \<or> shape1 d = 0 \<Longrightarrow> RasterBand_init tp d org w h = Inl ZeroDivisionError"
  by (auto simp: RasterBand_init_def truediv_def)

lemma init_fields:
  assumes "RasterBand_init tp d org w h = Inr rb"
  shows "data rb = d" "origin rb = org" "width rb = w" "height rb = h"
    "pixel_width rb = w / real (shape0 d)" "pixel_height rb = h / real (shape1 d)"
    "center_x rb = w / 2" "center_y rb = h / 2"
    "0 < shape0 d" "0 < shape1 d"
    "cartesian_locations rb = dict_of (index_to_cartesian rb) (indices (shape0 d) (shape1 d))"
    "polar_locations rb = dict_of (index_to_polar tp rb) (indices (shape0 d) (shape1 d))"
  using assms
  by (auto simp: RasterBand_init_def truediv_def Let_def index_to_polar_fun index_to_cartesian_fun
      split: if_splits)

lemma init_succeeds:
  "0 < shape0 d \<Longrightarrow> 0 < shape1 d \<Longrightarrow> \<exists>rb. RasterBand_init tp d org w h = Inr rb"
  by (simp add: RasterBand_init_def truediv_def Let_def)


lemma init_locations:
  assumes "RasterBand_init tp d org w h = Inr rb"
  shows "cartesian_locations rb (i, j) =
           (if i < shape0 d \<and> j < shape1 d then Some (index_to_cartesian rb (i, j)) else None)"
    and "polar_locations rb (i, j) =
           (if i < shape0 d \<and> j < shape1 d then Some (index_to_polar tp rb (i, j)) else None)"
  by (simp_all add: init_fields(11,12)[OF assms] dict_of_lookup mem_indices)

text \<open>
  Claim C2. For a raster band constructed from a grid of shape (W, H), a width and a
  height, \<open>index_to_cartesian (i, j)\<close> is the point with
  east = (pixel_width/2 + i * pixel_width) - width/2 and
  north = height/2 - (pixel_height/2 + j * pixel_height), where pixel_width = width/W and
  pixel_height = height/H; for a positive width east grows with i, for a positive height
  north falls with j; and on a 2 by 2 grid with width = height = 10 the cell (0, 0) has
  center (-2.5, 2.5) and the cell (1, 1) has center (2.5, -2.5).
\<close>

theorem index_to_cartesian_cell_center:
  assumes "RasterBand_init to_polar d org w h = Inr rb"
  shows "index_to_cartesian rb (i, j) =
           \<lparr>east = (pixel_width rb / 2 + real i * pixel_width rb) - w / 2,
            north = h / 2 - (pixel_height rb / 2 + real j * pixel_height rb)\<rparr>
         \<and> pixel_width rb = w / real (shape0 d) \<and> pixel_height rb = h / real (shape1 d)
         \<and> (0 < w \<and> i < i' \<longrightarrow>
              east (index_to_cartesian rb (i, j)) < east (index_to_cartesian rb (i', j)))
         \<and> (0 < h \<and> j < j' \<longrightarrow>
              north (index_to_cartesian rb (i, j')) < north (index_to_cartesian rb (i, j)))
         \<and> (shape0 d = 2 \<and> shape1 d = 2 \<and> w = 10 \<and> h = 10 \<longrightarrow>
              index_to_cartesian rb (0, 0) = \<lparr>east = - 5 / 2, north = 5 / 2\<rparr>
              \<and> index_to_cartesian rb (1, 1) = \<lparr>east = 5 / 2, north = - 5 / 2\<rparr>)"
proof -
  note f = init_fields[OF assms]
  have pw: "0 < w \<Longrightarrow> 0 < pixel_width rb" and ph: "0 < h \<Longrightarrow> 0 < pixel_height rb"
    using f(9,10) by (simp_all add: f(5,6))
  have formula: "index_to_cartesian rb (i, j) =
           \<lparr>east = (pixel_width rb / 2 + real i * pixel_width rb) - w / 2,
            north = h / 2 - (pixel_height rb / 2 + real j * pixel_height rb)\<rparr>"
    by (simp add: index_to_cartesian_def f(7,8))
  have east: "0 < w \<and> i < i' \<longrightarrow>
              east (index_to_cartesian rb (i, j)) < east (index_to_cartesian rb (i', j))"
    using pw by (auto simp: index_to_cartesian_def)
  have north: "0 < h \<and> j < j' \<longrightarrow>
              north (index_to_cartesian rb (i, j')) < north (index_to_cartesian rb (i, j))"
    using ph by (auto simp: index_to_cartesian_def)
  have scenario: "shape0 d = 2 \<and> shape1 d = 2 \<and> w = 10 \<and> h = 10 \<longrightarrow>
              index_to_cartesian rb (0, 0) = \<lparr>east = - 5 / 2, north = 5 / 2\<rparr>
              \<and> index_to_cartesian rb (1, 1) = \<lparr>east = 5 / 2, north = - 5 / 2\<rparr>"
    by (simp add: index_to_cartesian_def f(5,6,7,8))
  show ?thesis using formula east north scenario f(5,6) by blast
qed

theorem index_to_cartesian_cell_center_witness:
  "\<exists>rb. RasterBand_init recorded_to_polar (array [[1, 2], [3, 4]]) (PolarLocation 0 0) 10 10 = Inr rb
      \<and> index_to_cartesian rb (0, 0) = \<lparr>east = - 5 / 2, north = 5 / 2\<rparr>
      \<and> index_to_cartesian rb (1, 1) = \<lparr>east = 5 / 2, north = - 5 / 2\<rparr>
      \<and> east (index_to_cartesian rb (0, 0)) < east (index_to_cartesian rb (1, 0))
      \<and> north (index_to_cartesian rb (0, 1)) < north (index_to_cartesian rb (0, 0))"
proof -
  have shape: "shape0 (array [[1, 2], [3, 4]]) = 2" "shape1 (array [[1, 2], [3, 4]]) = 2"
    by (simp_all add: array_def)
  have "\<exists>rb. RasterBand_init recorded_to_polar (array [[1, 2], [3, 4]]) (PolarLocation 0 0) 10 10
          = Inr rb"
    by (rule init_succeeds) (simp_all add: shape)
  then obtain rb where init:
    "RasterBand_init recorded_to_polar (array [[1, 2], [3, 4]]) (PolarLocation 0 0) 10 10 = Inr rb"
    by blast
  note center = index_to_cartesian_cell_center[OF init, of 0 0 1 1]
  have pos: "(0::real) < 10 \<and> (0::nat) < 1" by simp
  from center shape have scenario:
    "index_to_cartesian rb (0, 0) = \<lparr>east = - 5 / 2, north = 5 / 2\<rparr>
     \<and> index_to_cartesian rb (1, 1) = \<lparr>east = 5 / 2, north = - 5 / 2\<rparr>"
    by blast
  from center pos have order:
    "east (index_to_cartesian rb (0, 0)) < east (index_to_cartesian rb (1, 0))
     \<and> north (index_to_cartesian rb (0, 1)) < north (index_to_cartesian rb (0, 0))"
    by blast
  from init scenario order show ?thesis by blast
qed

text \<open>
  Claim C7, as amended. Constructing a raster band over a grid one of whose dimensions
  is zero raises \<open>ZeroDivisionError\<close>. Over a grid with both dimensions positive the
  construction succeeds for every width and height, positive or not, with
  pixel_width = width/W and pixel_height = height/H.
\<close>

theorem init_checks_only_the_shape:
  "(shape0 d = 0 \<or> shape1 d = 0 \<longrightarrow>
      RasterBand_init to_polar d org w h = Inl ZeroDivisionError)
   \<and> (0 < shape0 d \<and> 0 < shape1 d \<longrightarrow>
        (\<exists>rb. RasterBand_init to_polar d org w h = Inr rb
           \<and> pixel_width rb = w / real (shape0 d) \<and> pixel_height rb = h / real (shape1 d)))"
  using init_error[of d to_polar org w h] init_succeeds[of d to_polar org w h]
    init_fields(5,6)[of to_polar d org w h]
  by blast

theorem init_checks_only_the_shape_witness:
  "RasterBand_init recorded_to_polar (zeros (0, 3)) (PolarLocation 0 0) 10 10
     = Inl ZeroDivisionError
   \<and> (\<exists>rb. RasterBand_init recorded_to_polar (zeros (2, 3)) (PolarLocation 0 0) 10 (- 6) = Inr rb
         \<and> pixel_width rb = 5 \<and> pixel_height rb = - 2)"
  using init_checks_only_the_shape[of "zeros (0, 3)" recorded_to_polar "PolarLocation 0 0" 10 10]
    init_checks_only_the_shape[of "zeros (2, 3)" recorded_to_polar "PolarLocation 0 0" 10 "- 6"]
  by (simp add: zeros_def)

text \<open>
  The claim as stated fails: a 1 by 1 grid with width -10 and height 0 is constructed
  without an error, with pixel sizes -10 and 0.
\<close>

theorem init_accepts_nonpositive_extent:
  "\<not> isl (RasterBand_init recorded_to_polar (array [[0]]) (PolarLocation 0 0) (- 10) 0)
   \<and> map_sum id pixel_width
        (RasterBand_init recorded_to_polar (array [[0]]) (PolarLocation 0 0) (- 10) 0) = Inr (- 10)
   \<and> map_sum id pixel_height
        (RasterBand_init recorded_to_polar (array [[0]]) (PolarLocation 0 0) (- 10) 0) = Inr 0"
  by (simp add: RasterBand_init_def truediv_def array_def Let_def)

section \<open>Quadtree splitter: proofs\<close>

lemma slice_shape:
  "shape0 (slice_nd a r0 r1 c0 c1) = min r1 (shape0 a) - min r0 (shape0 a)"
  "shape1 (slice_nd a r0 r1 c0 c1) = min c1 (shape1 a) - min c0 (shape1 a)"
  by (simp_all add: slice_nd_def)

lemma split_quadrants:
  assumes "1 < shape0 (data self)" "1 < shape1 (data self)"
  shows "\<exists>q00 q01 q10 q11.
     split tp self = Inr (Quadrants [[q00, q01], [q10, q11]])
     \<and> RasterBand_init tp
          (slice_nd (data self) 0 (shape0 (data self) div 2) 0 (shape1 (data self) div 2))
          (tp \<lparr>east = origin_west self, north = origin_south self\<rparr> (origin self))
          (left_width self) (top_height self) = Inr q00
     \<and> RasterBand_init tp
          (slice_nd (data self) 0 (shape0 (data self) div 2)
             (shape1 (data self) div 2) (shape1 (data self)))
          (tp \<lparr>east = origin_west self, north = origin_north self\<rparr> (origin self))
          (left_width self) (bottom_height self) = Inr q01
     \<and> RasterBand_init tp
          (slice_nd (data self) (shape0 (data self) div 2) (shape0 (data self))
             0 (shape1 (data self) div 2))
          (tp \<lparr>east = origin_east self, north = origin_south self\<rparr> (origin self))
          (right_width self) (top_height self) = Inr q10
     \<and> RasterBand_init tp
          (slice_nd (data self) (shape0 (data self) div 2) (shape0 (data self))
             (shape1 (data self) div 2) (shape1 (data self)))
          (tp \<lparr>east = origin_east self, north = origin_north self\<rparr> (origin self))
          (right_width self) (bottom_height self) = Inr q11"
proof -
  let ?W = "shape0 (data self)" and ?H = "shape1 (data self)"
  have x: "0 < ?W div 2" "?W div 2 < ?W" and y: "0 < ?H div 2" "?H div 2 < ?H"
    using assms by auto
  have "\<exists>q00. RasterBand_init tp (slice_nd (data self) 0 (?W div 2) 0 (?H div 2))
          (tp \<lparr>east = origin_west self, north = origin_south self\<rparr> (origin self))
          (left_width self) (top_height self) = Inr q00"
    by (rule init_succeeds) (use x y in \<open>simp_all add: slice_shape\<close>)
  then obtain q00 where q00: "RasterBand_init tp (slice_nd (data self) 0 (?W div 2) 0 (?H div 2))
          (tp \<lparr>east = origin_west self, north = origin_south self\<rparr> (origin self))
          (left_width self) (top_height self) = Inr q00"
    by blast
  have "\<exists>q01. RasterBand_init tp (slice_nd (data self) 0 (?W div 2) (?H div 2) ?H)
          (tp \<lparr>east = origin_west self, north = origin_north self\<rparr> (origin self))
          (left_width self) (bottom_height self) = Inr q01"
    by (rule init_succeeds) (use x y in \<open>simp_all add: slice_shape\<close>)
  then obtain q01 where q01: "RasterBand_init tp (slice_nd (data self) 0 (?W div 2) (?H div 2) ?H)
          (tp \<lparr>east = origin_west self, north = origin_north self\<rparr> (origin self))
          (left_width self) (bottom_height self) = Inr q01"
    by blast
  have "\<exists>q10. RasterBand_init tp (slice_nd (data self) (?W div 2) ?W 0 (?H div 2))
          (tp \<lparr>east = origin_east self, north = origin_south self\<rparr> (origin self))
          (right_width self) (top_height self) = Inr q10"
    by (rule init_succeeds) (use x y in \<open>simp_all add: slice_shape\<close>)
  then obtain q10 where q10: "RasterBand_init tp (slice_nd (data self) (?W div 2) ?W 0 (?H div 2))
          (tp \<lparr>east = origin_east self, north = origin_south self\<rparr> (origin self))
          (right_width self) (top_height self) = Inr q10"
    by blast
  have "\<exists>q11. RasterBand_init tp (slice_nd (data self) (?W div 2) ?W (?H div 2) ?H)
          (tp \<lparr>east = origin_east self, north = origin_north self\<rparr> (origin self))
          (right_width self) (bottom_height self) = Inr q11"
    by (rule init_succeeds) (use x y in \<open>simp_all add: slice_shape\<close>)
  then obtain q11 where q11: "RasterBand_init tp (slice_nd (data self) (?W div 2) ?W (?H div 2) ?H)
          (tp \<lparr>east = origin_east self, north = origin_north self\<rparr> (origin self))
          (right_width self) (bottom_height self) = Inr q11"
    by blast
  have "split tp self = Inr (Quadrants [[q00, q01], [q10, q11]])"
    using assms by (simp add: split_def Let_def q00 q01 q10 q11)
  with q00 q01 q10 q11 show ?thesis by blast
qed

lemma split_base:
  "shape0 (data self) = 1 \<or> shape1 (data self) = 1 \<Longrightarrow> split tp self = Inr (Unsplit self)"
  by (simp add: split_def)

lemma widths_sum: "left_width self + right_width self = width self"
  by (simp add: left_width_def right_width_def field_simps)

lemma heights_sum: "top_height self + bottom_height self = height self"
  by (simp add: top_height_def bottom_height_def field_simps)

lemma four_products: "(a::nat) * c + a * d + b * c + b * d = (a + b) * (c + d)"
  by (simp add: algebra_simps)

text \<open>
  Claim C3. For a raster band with even pixel counts W \<ge> 2 and H \<ge> 2, \<open>split\<close> returns
  four quadrants. The widths of the two quadrants that lie side by side (one of the
  first sublist, one of the second) sum to the parent's width, the heights of the two
  quadrants of one sublist sum to the parent's height, and the four cell counts sum to
  W * H.
\<close>

theorem split_conservation:
  assumes "2 \<le> shape0 (data rb)" "2 \<le> shape1 (data rb)"
    and "even (shape0 (data rb))" "even (shape1 (data rb))"
  shows "\<exists>q00 q01 q10 q11.
     split to_polar rb = Inr (Quadrants [[q00, q01], [q10, q11]])
     \<and> width q00 + width q10 = width rb \<and> width q01 + width q11 = width rb
     \<and> height q00 + height q01 = height rb \<and> height q10 + height q11 = height rb
     \<and> cell_count q00 + cell_count q01 + cell_count q10 + cell_count q11
         = shape0 (data rb) * shape1 (data rb)"
proof -
  let ?W = "shape0 (data rb)" and ?H = "shape1 (data rb)"
  have big: "1 < ?W" "1 < ?H" using assms by auto
  from split_quadrants[OF big, of to_polar] obtain q00 q01 q10 q11 where
    s: "split to_polar rb = Inr (Quadrants [[q00, q01], [q10, q11]])"
    and q00: "RasterBand_init to_polar (slice_nd (data rb) 0 (?W div 2) 0 (?H div 2))
          (to_polar \<lparr>east = origin_west rb, north = origin_south rb\<rparr> (origin rb))
          (left_width rb) (top_height rb) = Inr q00"
    and q01: "RasterBand_init to_polar (slice_nd (data rb) 0 (?W div 2) (?H div 2) ?H)
          (to_polar \<lparr>east = origin_west rb, north = origin_north rb\<rparr> (origin rb))
          (left_width rb) (bottom_height rb) = Inr q01"
    and q10: "RasterBand_init to_polar (slice_nd (data rb) (?W div 2) ?W 0 (?H div 2))
          (to_polar \<lparr>east = origin_east rb, north = origin_south rb\<rparr> (origin rb))
          (right_width rb) (top_height rb) = Inr q10"
    and q11: "RasterBand_init to_polar (slice_nd (data rb) (?W div 2) ?W (?H div 2) ?H)
          (to_polar \<lparr>east = origin_east rb, north = origin_north rb\<rparr> (origin rb))
          (right_width rb) (bottom_height rb) = Inr q11"
    by blast
  have w: "width q00 + width q10 = width rb" "width q01 + width q11 = width rb"
    by (simp_all add: init_fields(3)[OF q00] init_fields(3)[OF q01] init_fields(3)[OF q10]
        init_fields(3)[OF q11] widths_sum)
  have h: "height q00 + height q01 = height rb" "height q10 + height q11 = height rb"
    by (simp_all add: init_fields(4)[OF q00] init_fields(4)[OF q01] init_fields(4)[OF q10]
        init_fields(4)[OF q11] heights_sum)
  have x: "?W div 2 \<le> ?W" and y: "?H div 2 \<le> ?H" by simp_all
  have "cell_count q00 + cell_count q01 + cell_count q10 + cell_count q11
      = (?W div 2) * (?H div 2) + (?W div 2) * (?H - ?H div 2)
        + (?W - ?W div 2) * (?H div 2) + (?W - ?W div 2) * (?H - ?H div 2)"
    by (simp add: cell_count_def init_fields(1)[OF q00] init_fields(1)[OF q01]
        init_fields(1)[OF q10] init_fields(1)[OF q11] slice_shape min_absorb1)
  also have "\<dots> = (?W div 2 + (?W - ?W div 2)) * (?H div 2 + (?H - ?H div 2))"
    by (rule four_products)
  also have "\<dots> = ?W * ?H" using x y by simp
  finally show ?thesis using s w h by blast
qed


theorem split_conservation_witness:
  "\<exists>rb q00 q01 q10 q11.
     RasterBand_init recorded_to_polar (zeros (2, 4)) (PolarLocation 0 0) 10 8 = Inr rb
     \<and> split recorded_to_polar rb = Inr (Quadrants [[q00, q01], [q10, q11]])
     \<and> width q00 + width q10 = 10 \<and> width q01 + width q11 = 10
     \<and> height q00 + height q01 = 8 \<and> height q10 + height q11 = 8
     \<and> cell_count q00 + cell_count q01 + cell_count q10 + cell_count q11 = 8"
proof -
  have "\<exists>rb. RasterBand_init recorded_to_polar (zeros (2, 4)) (PolarLocation 0 0) 10 8 = Inr rb"
    by (rule init_succeeds) (simp_all add: zeros_def)
  then obtain rb where
    init: "RasterBand_init recorded_to_polar (zeros (2, 4)) (PolarLocation 0 0) 10 8 = Inr rb"
    by blast
  have shape: "shape0 (data rb) = 2" "shape1 (data rb) = 4"
    by (simp_all add: init_fields(1)[OF init] zeros_def)
  have extent: "width rb = 10" "height rb = 8"
    by (simp_all add: init_fields(3,4)[OF init])
  have "\<exists>q00 q01 q10 q11.
     split recorded_to_polar rb = Inr (Quadrants [[q00, q01], [q10, q11]])
     \<and> width q00 + width q10 = width rb \<and> width q01 + width q11 = width rb
     \<and> height q00 + height q01 = height rb \<and> height q10 + height q11 = height rb
     \<and> cell_count q00 + cell_count q01 + cell_count q10 + cell_count q11
         = shape0 (data rb) * shape1 (data rb)"
    by (rule split_conservation) (simp_all add: shape)
  then show ?thesis using init by (simp add: shape extent)
qed

lemma split_results_constructed:
  assumes "split tp self = Inr (Quadrants qs)" "q \<in> set (concat qs)"
  shows "\<exists>d org w h. RasterBand_init tp d org w h = Inr q"
  using assms
  by (auto simp: split_def Let_def split: if_splits sum.splits) blast+

lemma split_unsplit_same: "split tp self = Inr (Unsplit rb) \<Longrightarrow> rb = self"
  by (auto simp: split_def Let_def split: if_splits sum.splits)

lemma offsets_signs:
  assumes "pixel_width rb = width rb / real (shape0 (data rb))"
    and "pixel_height rb = height rb / real (shape1 (data rb))"
    and "0 < width rb" "0 < height rb" "1 < shape0 (data rb)" "1 < shape1 (data rb)"
  shows "origin_west rb < 0" "0 < origin_east rb" "origin_north rb < 0" "0 < origin_south rb"
proof -
  have W: "1 < real (shape0 (data rb))" and H: "1 < real (shape1 (data rb))"
    using assms(5,6) by simp_all
  have "width rb * 1 < width rb * real (shape0 (data rb))"
    by (rule mult_strict_left_mono[OF W assms(3)])
  then have pw: "0 < pixel_width rb" "pixel_width rb < width rb"
    using W assms(3) by (simp_all add: assms(1) divide_less_eq)
  have "height rb * 1 < height rb * real (shape1 (data rb))"
    by (rule mult_strict_left_mono[OF H assms(4)])
  then have ph: "0 < pixel_height rb" "pixel_height rb < height rb"
    using H assms(4) by (simp_all add: assms(2) divide_less_eq)
  show "origin_west rb < 0" using pw assms(3) by (simp add: origin_west_def)
  show "0 < origin_east rb" using pw assms(3) by (simp add: origin_east_def)
  show "origin_north rb < 0" using ph assms(4) by (simp add: origin_north_def)
  show "0 < origin_south rb" using ph assms(4) by (simp add: origin_south_def)
qed

text \<open>
  Claim C5, as amended. For a raster band with W > 1 and H > 1, positive width and height
  and pixel sizes width/W and height/H, \<open>split\<close> returns a nested list of four raster
  bands: the first sublist holds the two western quadrants (columns below W div 2, east
  offset of the origin negative), the second the two eastern ones (east offset positive);
  within each sublist the first element is the northern quadrant (rows below H div 2,
  north offset of the origin positive: the variable \<^verbatim>\<open>origin_south\<close> of the source)
  and the second the southern one (north offset negative: \<^verbatim>\<open>origin_north\<close>). With
  W = 1 or H = 1 the raster band itself is returned.
\<close>

theorem split_layout:
  assumes "pixel_width rb = width rb / real (shape0 (data rb))"
    and "pixel_height rb = height rb / real (shape1 (data rb))"
    and "0 < width rb" "0 < height rb"
  shows "(1 < shape0 (data rb) \<and> 1 < shape1 (data rb) \<longrightarrow>
      (\<exists>q00 q01 q10 q11.
         split to_polar rb = Inr (Quadrants [[q00, q01], [q10, q11]])
         \<and> origin q00 = to_polar \<lparr>east = origin_west rb, north = origin_south rb\<rparr> (origin rb)
         \<and> origin q01 = to_polar \<lparr>east = origin_west rb, north = origin_north rb\<rparr> (origin rb)
         \<and> origin q10 = to_polar \<lparr>east = origin_east rb, north = origin_south rb\<rparr> (origin rb)
         \<and> origin q11 = to_polar \<lparr>east = origin_east rb, north = origin_north rb\<rparr> (origin rb)
         \<and> data q00 = slice_nd (data rb) 0 (shape0 (data rb) div 2) 0 (shape1 (data rb) div 2)
         \<and> data q01 = slice_nd (data rb) 0 (shape0 (data rb) div 2)
                         (shape1 (data rb) div 2) (shape1 (data rb))
         \<and> data q10 = slice_nd (data rb) (shape0 (data rb) div 2) (shape0 (data rb))
                         0 (shape1 (data rb) div 2)
         \<and> data q11 = slice_nd (data rb) (shape0 (data rb) div 2) (shape0 (data rb))
                         (shape1 (data rb) div 2) (shape1 (data rb))
         \<and> origin_west rb < 0 \<and> 0 < origin_east rb
         \<and> origin_north rb < 0 \<and> 0 < origin_south rb))
    \<and> (shape0 (data rb) = 1 \<or> shape1 (data rb) = 1 \<longrightarrow> split to_polar rb = Inr (Unsplit rb))"
proof (intro conjI impI)
  assume big: "1 < shape0 (data rb) \<and> 1 < shape1 (data rb)"
  then have b: "1 < shape0 (data rb)" "1 < shape1 (data rb)" by simp_all
  note signs = offsets_signs[OF assms b]
  from split_quadrants[OF b, of to_polar] obtain q00 q01 q10 q11 where
    s: "split to_polar rb = Inr (Quadrants [[q00, q01], [q10, q11]])"
    and q00: "RasterBand_init to_polar
          (slice_nd (data rb) 0 (shape0 (data rb) div 2) 0 (shape1 (data rb) div 2))
          (to_polar \<lparr>east = origin_west rb, north = origin_south rb\<rparr> (origin rb))
          (left_width rb) (top_height rb) = Inr q00"
    and q01: "RasterBand_init to_polar
          (slice_nd (data rb) 0 (shape0 (data rb) div 2) (shape1 (data rb) div 2) (shape1 (data rb)))
          (to_polar \<lparr>east = origin_west rb, north = origin_north rb\<rparr> (origin rb))
          (left_width rb) (bottom_height rb) = Inr q01"
    and q10: "RasterBand_init to_polar
          (slice_nd (data rb) (shape0 (data rb) div 2) (shape0 (data rb)) 0 (shape1 (data rb) div 2))
          (to_polar \<lparr>east = origin_east rb, north = origin_south rb\<rparr> (origin rb))
          (right_width rb) (top_height rb) = Inr q10"
    and q11: "RasterBand_init to_polar
          (slice_nd (data rb) (shape0 (data rb) div 2) (shape0 (data rb))
             (shape1 (data rb) div 2) (shape1 (data rb)))
          (to_polar \<lparr>east = origin_east rb, north = origin_north rb\<rparr> (origin rb))
          (right_width rb) (bottom_height rb) = Inr q11"
    by blast
  show "\<exists>q00 q01 q10 q11.
         split to_polar rb = Inr (Quadrants [[q00, q01], [q10, q11]])
         \<and> origin q00 = to_polar \<lparr>east = origin_west rb, north = origin_south rb\<rparr> (origin rb)
         \<and> origin q01 = to_polar \<lparr>east = origin_west rb, north = origin_north rb\<rparr> (origin rb)
         \<and> origin q10 = to_polar \<lparr>east = origin_east rb, north = origin_south rb\<rparr> (origin rb)
         \<and> origin q11 = to_polar \<lparr>east = origin_east rb, north = origin_north rb\<rparr> (origin rb)
         \<and> data q00 = slice_nd (data rb) 0 (shape0 (data rb) div 2) 0 (shape1 (data rb) div 2)
         \<and> data q01 = slice_nd (data rb) 0 (shape0 (data rb) div 2)
                         (shape1 (data rb) div 2) (shape1 (data rb))
         \<and> data q10 = slice_nd (data rb) (shape0 (data rb) div 2) (shape0 (data rb))
                         0 (shape1 (data rb) div 2)
         \<and> data q11 = slice_nd (data rb) (shape0 (data rb) div 2) (shape0 (data rb))
                         (shape1 (data rb) div 2) (shape1 (data rb))
         \<and> origin_west rb < 0 \<and> 0 < origin_east rb
         \<and> origin_north rb < 0 \<and> 0 < origin_south rb"
    using s signs init_fields(1,2)[OF q00] init_fields(1,2)[OF q01]
      init_fields(1,2)[OF q10] init_fields(1,2)[OF q11]
    by blast
next
  assume "shape0 (data rb) = 1 \<or> shape1 (data rb) = 1"
  then show "split to_polar rb = Inr (Unsplit rb)" by (rule split_base)
qed


lemma split_origins:
  assumes "1 < shape0 (data rb)" "1 < shape1 (data rb)"
  shows "map_sum id quadrant_origins (split tp rb) =
     Inr [[tp \<lparr>east = origin_west rb, north = origin_south rb\<rparr> (origin rb),
           tp \<lparr>east = origin_west rb, north = origin_north rb\<rparr> (origin rb)],
          [tp \<lparr>east = origin_east rb, north = origin_south rb\<rparr> (origin rb),
           tp \<lparr>east = origin_east rb, north = origin_north rb\<rparr> (origin rb)]]"
proof -
  from split_quadrants[OF assms, of tp] obtain q00 q01 q10 q11 where
    s: "split tp rb = Inr (Quadrants [[q00, q01], [q10, q11]])"
    and o: "origin q00 = tp \<lparr>east = origin_west rb, north = origin_south rb\<rparr> (origin rb)"
      "origin q01 = tp \<lparr>east = origin_west rb, north = origin_north rb\<rparr> (origin rb)"
      "origin q10 = tp \<lparr>east = origin_east rb, north = origin_south rb\<rparr> (origin rb)"
      "origin q11 = tp \<lparr>east = origin_east rb, north = origin_north rb\<rparr> (origin rb)"
    using init_fields(2) by metis
  show ?thesis by (simp add: s o quadrant_origins_def)
qed

lemma split_pixel_sizes:
  assumes "1 < shape0 (data rb)" "1 < shape1 (data rb)"
  shows "map_sum id quadrant_pixel_sizes (split tp rb) =
     Inr [[(left_width rb / real (shape0 (data rb) div 2),
            top_height rb / real (shape1 (data rb) div 2)),
           (left_width rb / real (shape0 (data rb) div 2),
            bottom_height rb / real (shape1 (data rb) - shape1 (data rb) div 2))],
          [(right_width rb / real (shape0 (data rb) - shape0 (data rb) div 2),
            top_height rb / real (shape1 (data rb) div 2)),
           (right_width rb / real (shape0 (data rb) - shape0 (data rb) div 2),
            bottom_height rb / real (shape1 (data rb) - shape1 (data rb) div 2))]]"
proof -
  let ?W = "shape0 (data rb)" and ?H = "shape1 (data rb)"
  from split_quadrants[OF assms, of tp] obtain q00 q01 q10 q11 where
    s: "split tp rb = Inr (Quadrants [[q00, q01], [q10, q11]])"
    and q00: "RasterBand_init tp (slice_nd (data rb) 0 (?W div 2) 0 (?H div 2))
          (tp \<lparr>east = origin_west rb, north = origin_south rb\<rparr> (origin rb))
          (left_width rb) (top_height rb) = Inr q00"
    and q01: "RasterBand_init tp (slice_nd (data rb) 0 (?W div 2) (?H div 2) ?H)
          (tp \<lparr>east = origin_west rb, north = origin_north rb\<rparr> (origin rb))
          (left_width rb) (bottom_height rb) = Inr q01"
    and q10: "RasterBand_init tp (slice_nd (data rb) (?W div 2) ?W 0 (?H div 2))
          (tp \<lparr>east = origin_east rb, north = origin_south rb\<rparr> (origin rb))
          (right_width rb) (top_height rb) = Inr q10"
    and q11: "RasterBand_init tp (slice_nd (data rb) (?W div 2) ?W (?H div 2) ?H)
          (tp \<lparr>east = origin_east rb, north = origin_north rb\<rparr> (origin rb))
          (right_width rb) (bottom_height rb) = Inr q11"
    by blast
  show ?thesis
    by (simp add: s quadrant_pixel_sizes_def pixel_size_def
        init_fields(5,6)[OF q00] init_fields(5,6)[OF q01]
        init_fields(5,6)[OF q10] init_fields(5,6)[OF q11] slice_shape min_absorb1)
qed

lemma bind_error_Inr: "r = Inr x \<Longrightarrow> bind_error r f = f x"
  by (simp add: bind_error_def)

theorem split_layout_witness:
  "(\<exists>rb q00 q01 q10 q11.
      RasterBand_init recorded_to_polar (array [[1, 2], [3, 4]]) (PolarLocation 0 0) 10 10 = Inr rb
      \<and> split recorded_to_polar rb = Inr (Quadrants [[q00, q01], [q10, q11]])
      \<and> origin q00 = Converted \<lparr>east = origin_west rb, north = origin_south rb\<rparr> (PolarLocation 0 0)
      \<and> origin q11 = Converted \<lparr>east = origin_east rb, north = origin_north rb\<rparr> (PolarLocation 0 0)
      \<and> origin_west rb < 0 \<and> 0 < origin_east rb \<and> origin_north rb < 0 \<and> 0 < origin_south rb)
   \<and> (\<exists>rb. RasterBand_init recorded_to_polar (zeros (1, 3)) (PolarLocation 0 0) 10 10 = Inr rb
         \<and> split recorded_to_polar rb = Inr (Unsplit rb))"
proof -
  have "\<exists>rb. RasterBand_init recorded_to_polar (array [[1, 2], [3, 4]]) (PolarLocation 0 0) 10 10
          = Inr rb"
    by (rule init_succeeds) (simp_all add: array_def)
  then obtain rb where init:
    "RasterBand_init recorded_to_polar (array [[1, 2], [3, 4]]) (PolarLocation 0 0) 10 10 = Inr rb"
    by blast
  note f = init_fields[OF init]
  have shape: "shape0 (data rb) = 2" "shape1 (data rb) = 2"
    by (simp_all add: f(1) array_def)
  have pre: "pixel_width rb = width rb / real (shape0 (data rb))"
    "pixel_height rb = height rb / real (shape1 (data rb))" "0 < width rb" "0 < height rb"
    by (simp_all add: f)
  have big: "1 < shape0 (data rb) \<and> 1 < shape1 (data rb)" by (simp add: shape)
  from split_layout[OF pre, of recorded_to_polar] big init
  have first: "\<exists>rb q00 q01 q10 q11.
      RasterBand_init recorded_to_polar (array [[1, 2], [3, 4]]) (PolarLocation 0 0) 10 10 = Inr rb
      \<and> split recorded_to_polar rb = Inr (Quadrants [[q00, q01], [q10, q11]])
      \<and> origin q00 = Converted \<lparr>east = origin_west rb, north = origin_south rb\<rparr> (PolarLocation 0 0)
      \<and> origin q11 = Converted \<lparr>east = origin_east rb, north = origin_north rb\<rparr> (PolarLocation 0 0)
      \<and> origin_west rb < 0 \<and> 0 < origin_east rb \<and> origin_north rb < 0 \<and> 0 < origin_south rb"
    unfolding recorded_to_polar_def f(2) by blast
  have "\<exists>rb1. RasterBand_init recorded_to_polar (zeros (1, 3)) (PolarLocation 0 0) 10 10 = Inr rb1"
    by (rule init_succeeds) (simp_all add: zeros_def)
  then obtain rb1 where init1:
    "RasterBand_init recorded_to_polar (zeros (1, 3)) (PolarLocation 0 0) 10 10 = Inr rb1"
    by blast
  note g = init_fields[OF init1]
  have pre1: "pixel_width rb1 = width rb1 / real (shape0 (data rb1))"
    "pixel_height rb1 = height rb1 / real (shape1 (data rb1))" "0 < width rb1" "0 < height rb1"
    by (simp_all add: g)
  have small: "shape0 (data rb1) = 1 \<or> shape1 (data rb1) = 1" by (simp add: g(1) zeros_def)
  from split_layout[OF pre1, of recorded_to_polar] small init1
  have second: "\<exists>rb. RasterBand_init recorded_to_polar (zeros (1, 3)) (PolarLocation 0 0) 10 10 = Inr rb
         \<and> split recorded_to_polar rb = Inr (Unsplit rb)"
    by blast
  from first second show ?thesis by (rule conjI)
qed

text \<open>
  The claim as stated fails: on a 2 by 2 grid with width = height = 10 the first element
  of each sublist has its origin at the north offset +2.5, the second at -2.5.
\<close>

theorem split_first_element_is_northern:
  "map_sum id quadrant_origins
     (bind_error
        (RasterBand_init recorded_to_polar (array [[1, 2], [3, 4]]) (PolarLocation 0 0) 10 10)
        (split recorded_to_polar))
   = Inr [[Converted \<lparr>east = - 5 / 2, north = 5 / 2\<rparr> (PolarLocation 0 0),
           Converted \<lparr>east = - 5 / 2, north = - 5 / 2\<rparr> (PolarLocation 0 0)],
          [Converted \<lparr>east = 5 / 2, north = 5 / 2\<rparr> (PolarLocation 0 0),
           Converted \<lparr>east = 5 / 2, north = - 5 / 2\<rparr> (PolarLocation 0 0)]]"
proof -
  have "\<exists>rb. RasterBand_init recorded_to_polar (array [[1, 2], [3, 4]]) (PolarLocation 0 0) 10 10
          = Inr rb"
    by (rule init_succeeds) (simp_all add: array_def)
  then obtain rb where init:
    "RasterBand_init recorded_to_polar (array [[1, 2], [3, 4]]) (PolarLocation 0 0) 10 10 = Inr rb"
    by blast
  note f = init_fields[OF init]
  have big: "1 < shape0 (data rb)" "1 < shape1 (data rb)"
    by (simp_all add: f(1) array_def)
  have even: "float_mod 10 2 = 0"
    by (simp add: float_mod_def)
  have offsets: "origin_west rb = - 5 / 2" "origin_east rb = 5 / 2"
    "origin_north rb = - 5 / 2" "origin_south rb = 5 / 2"
    by (simp_all add: origin_west_def origin_east_def origin_north_def origin_south_def
        even f(3,4))
  show ?thesis
    unfolding bind_error_Inr[OF init] split_origins[OF big] offsets f(2) recorded_to_polar_def
    by (rule refl)
qed

text \<open>
  The formulas of \<open>split\<close> keep the pixel size whenever the parity test on the extent
  agrees with the parity of the pixel count.
\<close>

lemma halves_keep_pixel:
  fixes w :: real
  assumes "1 < W"
  shows "even W \<Longrightarrow> (w / 2) / real (W div 2) = w / real W"
    and "even W \<Longrightarrow> (w / 2) / real (W - W div 2) = w / real W"
    and "odd W \<Longrightarrow> ((w - w / real W) / 2) / real (W div 2) = w / real W"
    and "odd W \<Longrightarrow> ((w + w / real W) / 2) / real (W - W div 2) = w / real W"
proof -
  {
    assume "even W"
    then obtain k where k: "W = 2 * k" by (auto elim: evenE)
    with assms have "0 < k" by simp
    then show "(w / 2) / real (W div 2) = w / real W"
      and "(w / 2) / real (W - W div 2) = w / real W"
      by (simp_all add: k)
  }
  {
    assume "odd W"
    then obtain k where k: "W = 2 * k + 1" by (auto elim: oddE)
    with assms have "0 < k" by simp
    then have d: "W div 2 = k" by (simp add: k)
    have W: "real W = 2 * real k + 1" by (simp add: k)
    have less: "w - w / real W = (w / real W) * (2 * real k)"
      unfolding W by (simp add: field_simps)
    have more: "w + w / real W = (w / real W) * (2 * (real k + 1))"
      unfolding W by (simp add: field_simps)
    have cancel: "\<And>c x :: real. x \<noteq> 0 \<Longrightarrow> ((c * (2 * x)) / 2) / x = c"
      by simp
    have "((w / real W) * (2 * real k) / 2) / real k = w / real W"
      by (rule cancel) (use \<open>0 < k\<close> in simp)
    then show "((w - w / real W) / 2) / real (W div 2) = w / real W"
      unfolding d less .
    have "((w / real W) * (2 * (real k + 1)) / 2) / (real k + 1) = w / real W"
      by (rule cancel) (simp add: add_nonneg_eq_0_iff)
    moreover have "real (W - W div 2) = real k + 1" by (simp add: k)
    ultimately show "((w + w / real W) / 2) / real (W - W div 2) = w / real W"
      unfolding more by (simp only:)
  }
qed

lemma split_keeps_pixel_size_when_parities_agree:
  assumes "pixel_width rb = width rb / real (shape0 (data rb))"
    and "pixel_height rb = height rb / real (shape1 (data rb))"
    and "1 < shape0 (data rb)" "1 < shape1 (data rb)"
    and "float_mod (width rb) 2 \<noteq> 0 \<longleftrightarrow> odd (shape0 (data rb))"
    and "float_mod (height rb) 2 \<noteq> 0 \<longleftrightarrow> odd (shape1 (data rb))"
  shows "map_sum id quadrant_pixel_sizes (split tp rb) =
     Inr [[pixel_size rb, pixel_size rb], [pixel_size rb, pixel_size rb]]"
proof -
  note hw = halves_keep_pixel[OF assms(3), of "width rb"]
  note hh = halves_keep_pixel[OF assms(4), of "height rb"]
  have w: "left_width rb / real (shape0 (data rb) div 2) = pixel_width rb"
    "right_width rb / real (shape0 (data rb) - shape0 (data rb) div 2) = pixel_width rb"
    using assms(5) hw by (auto simp: left_width_def right_width_def assms(1))
  have h: "top_height rb / real (shape1 (data rb) div 2) = pixel_height rb"
    "bottom_height rb / real (shape1 (data rb) - shape1 (data rb) div 2) = pixel_height rb"
    using assms(6) hh by (auto simp: top_height_def bottom_height_def assms(2))
  show ?thesis
    unfolding split_pixel_sizes[OF assms(3,4)] w h pixel_size_def by (rule refl)
qed

text \<open>
  Claim C4 at a 3 by 3 grid with width = height = 6. The pixels of the parent are 2 by 2.
  The source tests the parity of the extent in metres, which is even, and halves it,
  while the grid is cut into 1 and 2 cells: the quadrants have pixels of width and
  height 3 or 1.5.
\<close>

theorem split_changes_pixel_size:
  "map_sum id pixel_size
     (RasterBand_init recorded_to_polar (zeros (3, 3)) (PolarLocation 0 0) 6 6) = Inr (2, 2)
   \<and> map_sum id quadrant_pixel_sizes
       (bind_error (RasterBand_init recorded_to_polar (zeros (3, 3)) (PolarLocation 0 0) 6 6)
          (split recorded_to_polar))
     = Inr [[(3, 3), (3, 3 / 2)], [(3 / 2, 3), (3 / 2, 3 / 2)]]"
proof -
  have "\<exists>rb. RasterBand_init recorded_to_polar (zeros (3, 3)) (PolarLocation 0 0) 6 6 = Inr rb"
    by (rule init_succeeds) (simp_all add: zeros_def)
  then obtain rb where init:
    "RasterBand_init recorded_to_polar (zeros (3, 3)) (PolarLocation 0 0) 6 6 = Inr rb"
    by blast
  note f = init_fields[OF init]
  have shape: "shape0 (data rb) = 3" "shape1 (data rb) = 3"
    by (simp_all add: f(1) zeros_def)
  have big: "1 < shape0 (data rb)" "1 < shape1 (data rb)"
    by (simp_all add: shape)
  have even: "float_mod 6 2 = 0"
    by (simp add: float_mod_def)
  have extents: "left_width rb = 3" "right_width rb = 3" "top_height rb = 3" "bottom_height rb = 3"
    by (simp_all add: left_width_def right_width_def top_height_def bottom_height_def
        even f(3,4))
  have parent: "map_sum id pixel_size
     (RasterBand_init recorded_to_polar (zeros (3, 3)) (PolarLocation 0 0) 6 6) = Inr (2, 2)"
    unfolding init by (simp add: pixel_size_def f(5,6) zeros_def)
  have children: "map_sum id quadrant_pixel_sizes
       (bind_error (RasterBand_init recorded_to_polar (zeros (3, 3)) (PolarLocation 0 0) 6 6)
          (split recorded_to_polar))
     = Inr [[(3, 3), (3, 3 / 2)], [(3 / 2, 3), (3 / 2, 3 / 2)]]"
    unfolding bind_error_Inr[OF init] split_pixel_sizes[OF big] extents shape
    by simp
  from parent children show ?thesis by (rule conjI)
qed

section \<open>Mixture rasterizer and location caches: proofs\<close>

lemma cache_cdf_sound:
  assumes "\<And>k v. cdf_raster s k = Some v \<Longrightarrow> v = cdf g k"
  shows "cdf_raster (cache_cdf g key s) k = Some v \<Longrightarrow> v = cdf g k"
  using assms by (auto simp: cache_cdf_def split: option.splits if_splits)

lemma cache_cdf_keeps:
  "cdf_raster s k = Some v \<Longrightarrow> cdf_raster (cache_cdf g key s) k = Some v"
  by (auto simp: cache_cdf_def split: option.splits)

lemma cache_cdf_present:
  assumes "\<And>k v. cdf_raster s k = Some v \<Longrightarrow> v = cdf g k"
  shows "cdf_raster (cache_cdf g key s) key = Some (cdf g key)"
  using assms by (auto simp: cache_cdf_def split: option.splits)

lemma four_lookups:
  fixes k1 k2 k3 k4 :: "real \<times> real"
  assumes sound: "\<And>k v. cdf_raster s k = Some v \<Longrightarrow> v = cdf g k"
  defines "s4 \<equiv> cache_cdf g k4 (cache_cdf g k3 (cache_cdf g k2 (cache_cdf g k1 s)))"
  shows "cdf_raster s4 k1 = Some (cdf g k1)" "cdf_raster s4 k2 = Some (cdf g k2)"
    "cdf_raster s4 k3 = Some (cdf g k3)" "cdf_raster s4 k4 = Some (cdf g k4)"
    "\<And>k v. cdf_raster s4 k = Some v \<Longrightarrow> v = cdf g k"
proof -
  let ?s1 = "cache_cdf g k1 s"
  let ?s2 = "cache_cdf g k2 ?s1"
  let ?s3 = "cache_cdf g k3 ?s2"
  have s1: "\<And>k v. cdf_raster ?s1 k = Some v \<Longrightarrow> v = cdf g k"
    by (rule cache_cdf_sound[OF sound])
  have s2: "\<And>k v. cdf_raster ?s2 k = Some v \<Longrightarrow> v = cdf g k"
    by (rule cache_cdf_sound[OF s1])
  have s3: "\<And>k v. cdf_raster ?s3 k = Some v \<Longrightarrow> v = cdf g k"
    by (rule cache_cdf_sound[OF s2])
  show "\<And>k v. cdf_raster s4 k = Some v \<Longrightarrow> v = cdf g k"
    unfolding s4_def by (rule cache_cdf_sound[OF s3])
  show "cdf_raster s4 k4 = Some (cdf g k4)"
    unfolding s4_def by (rule cache_cdf_present[OF s3])
  show "cdf_raster s4 k3 = Some (cdf g k3)"
    unfolding s4_def by (rule cache_cdf_keeps[OF cache_cdf_present[OF s2]])
  show "cdf_raster s4 k2 = Some (cdf g k2)"
    unfolding s4_def by (rule cache_cdf_keeps[OF cache_cdf_keeps[OF cache_cdf_present[OF s1]]])
  show "cdf_raster s4 k1 = Some (cdf g k1)"
    unfolding s4_def
    by (rule cache_cdf_keeps[OF cache_cdf_keeps[OF cache_cdf_keeps[OF cache_cdf_present[OF sound]]]])
qed

lemma corners:
  "add_vector (to_numpy loc) (top_right_vector rb)
     = (east loc + pixel_width rb / 2, north loc + pixel_height rb / 2)"
  "add_vector (to_numpy loc) (top_left_vector rb)
     = (east loc - pixel_width rb / 2, north loc + pixel_height rb / 2)"
  "add_vector (to_numpy loc) (bottom_right_vector rb)
     = (east loc + pixel_width rb / 2, north loc - pixel_height rb / 2)"
  "add_vector (to_numpy loc) (bottom_left_vector rb)
     = (east loc - pixel_width rb / 2, north loc - pixel_height rb / 2)"
  by (simp_all add: add_vector_def to_numpy_def top_right_vector_def top_left_vector_def
      bottom_right_vector_def bottom_left_vector_def scale_vector_def vstack_def)

lemma pixel_step_result:
  assumes sound: "\<And>k v. cdf_raster (fst st) k = Some v \<Longrightarrow> v = cdf g k"
    and loc: "cartesian_locations rb index = Some loc"
    and range: "fst index < shape0 (snd st)" "snd index < shape1 (snd st)"
  shows "\<exists>s'. pixel_step rb g index st =
           Inr (s', (snd st)\<lparr>item := (item (snd st))
                  (fst index := (item (snd st) (fst index))
                     (snd index := cell_mass g loc (pixel_width rb) (pixel_height rb)))\<rparr>)
         \<and> (\<forall>k v. cdf_raster s' k = Some v \<longrightarrow> v = cdf g k)"
proof -
  let ?k1 = "(east loc + pixel_width rb / 2, north loc + pixel_height rb / 2)"
  let ?k2 = "(east loc - pixel_width rb / 2, north loc + pixel_height rb / 2)"
  let ?k3 = "(east loc + pixel_width rb / 2, north loc - pixel_height rb / 2)"
  let ?k4 = "(east loc - pixel_width rb / 2, north loc - pixel_height rb / 2)"
  let ?s4 = "cache_cdf g ?k4 (cache_cdf g ?k3 (cache_cdf g ?k2 (cache_cdf g ?k1 (fst st))))"
  note l = four_lookups[where s = "fst st" and g = g and ?k1.0 = ?k1 and ?k2.0 = ?k2
      and ?k3.0 = ?k3 and ?k4.0 = ?k4, OF sound]
  have "pixel_step rb g index st =
           Inr (?s4, (snd st)\<lparr>item := (item (snd st))
                  (fst index := (item (snd st) (fst index))
                     (snd index := cell_mass g loc (pixel_width rb) (pixel_height rb)))\<rparr>)"
    using range
    by (simp add: pixel_step_def loc Let_def corners l(1-4) setitem_def cell_mass_def)
  moreover have "\<forall>k v. cdf_raster ?s4 k = Some v \<longrightarrow> v = cdf g k"
    using l(5) by blast
  ultimately show ?thesis by blast
qed

lemma pixel_loop_result:
  assumes "\<And>k v. cdf_raster (fst st) k = Some v \<Longrightarrow> v = cdf g k"
    and "\<And>idx. idx \<in> set idxs \<Longrightarrow> cartesian_locations rb idx = Some (f idx)
           \<and> fst idx < shape0 (snd st) \<and> snd idx < shape1 (snd st)"
  shows "\<exists>s' p'. pixel_loop rb g idxs st = Inr (s', p')
     \<and> (\<forall>k v. cdf_raster s' k = Some v \<longrightarrow> v = cdf g k)
     \<and> shape0 p' = shape0 (snd st) \<and> shape1 p' = shape1 (snd st)
     \<and> (\<forall>i j. item p' i j =
          (if (i, j) \<in> set idxs then cell_mass g (f (i, j)) (pixel_width rb) (pixel_height rb)
           else item (snd st) i j))"
  using assms
proof (induction idxs arbitrary: st)
  case Nil
  then show ?case by (cases st) auto
next
  case (Cons index rest)
  let ?p = "(snd st)\<lparr>item := (item (snd st))
                  (fst index := (item (snd st) (fst index))
                     (snd index := cell_mass g (f index) (pixel_width rb) (pixel_height rb)))\<rparr>"
  have here: "cartesian_locations rb index = Some (f index)"
    "fst index < shape0 (snd st)" "snd index < shape1 (snd st)"
    using Cons.prems(2)[of index] by simp_all
  from pixel_step_result[OF Cons.prems(1) here] obtain s1 where
    step: "pixel_step rb g index st = Inr (s1, ?p)"
    and sound1: "\<forall>k v. cdf_raster s1 k = Some v \<longrightarrow> v = cdf g k"
    by blast
  have rest: "\<And>idx. idx \<in> set rest \<Longrightarrow> cartesian_locations rb idx = Some (f idx)
           \<and> fst idx < shape0 (snd (s1, ?p)) \<and> snd idx < shape1 (snd (s1, ?p))"
    using Cons.prems(2) by simp
  have sound1': "\<And>k v. cdf_raster (fst (s1, ?p)) k = Some v \<Longrightarrow> v = cdf g k"
    using sound1 by auto
  from Cons.IH[of "(s1, ?p)", OF sound1' rest] obtain s' p' where
    loop: "pixel_loop rb g rest (s1, ?p) = Inr (s', p')"
    and sound': "\<forall>k v. cdf_raster s' k = Some v \<longrightarrow> v = cdf g k"
    and shape: "shape0 p' = shape0 (snd st)" "shape1 p' = shape1 (snd st)"
    and items: "\<forall>i j. item p' i j =
          (if (i, j) \<in> set rest then cell_mass g (f (i, j)) (pixel_width rb) (pixel_height rb)
           else item ?p i j)"
    by auto
  have "pixel_loop rb g (index # rest) st = Inr (s', p')"
    by (simp add: step loop)
  moreover have "\<forall>i j. item p' i j =
          (if (i, j) \<in> set (index # rest)
           then cell_mass g (f (i, j)) (pixel_width rb) (pixel_height rb)
           else item (snd st) i j)"
    using items by (cases index) auto
  ultimately show ?case using sound' shape by blast
qed


lemma component_raster:
  assumes locs: "\<And>i j. i < W \<Longrightarrow> j < H \<Longrightarrow>
      cartesian_locations rb (i, j) = Some (index_to_cartesian rb (i, j))"
  shows "\<exists>s p. pixel_loop rb g (indices W H) (empty_cdf_state, zeros (W, H)) = Inr (s, p)
     \<and> (\<forall>i j. i < W \<and> j < H \<longrightarrow>
           item p i j = cell_mass g (index_to_cartesian rb (i, j))
                          (pixel_width rb) (pixel_height rb))"
proof -
  let ?st = "(empty_cdf_state, zeros (W, H))"
  have sound: "\<And>k v. cdf_raster (fst ?st) k = Some v \<Longrightarrow> v = cdf g k"
    by (simp add: empty_cdf_state_def)
  have range: "\<And>idx. idx \<in> set (indices W H) \<Longrightarrow>
      cartesian_locations rb idx = Some (index_to_cartesian rb idx)
      \<and> fst idx < shape0 (snd ?st) \<and> snd idx < shape1 (snd ?st)"
  proof -
    fix idx :: "nat \<times> nat"
    assume "idx \<in> set (indices W H)"
    then have "fst idx < W" "snd idx < H"
      using mem_indices[of "fst idx" "snd idx" W H] by simp_all
    then show "cartesian_locations rb idx = Some (index_to_cartesian rb idx)
      \<and> fst idx < shape0 (snd ?st) \<and> snd idx < shape1 (snd ?st)"
      using locs[of "fst idx" "snd idx"] by (simp add: zeros_def)
  qed
  from pixel_loop_result[of ?st g "indices W H" rb "index_to_cartesian rb", OF sound range]
  obtain s p where loop: "pixel_loop rb g (indices W H) ?st = Inr (s, p)"
    and items: "\<forall>i j. item p i j =
          (if (i, j) \<in> set (indices W H)
           then cell_mass g (index_to_cartesian rb (i, j)) (pixel_width rb) (pixel_height rb)
           else item (snd ?st) i j)"
    by blast
  from items have "\<forall>i j. i < W \<and> j < H \<longrightarrow>
           item p i j = cell_mass g (index_to_cartesian rb (i, j))
                          (pixel_width rb) (pixel_height rb)"
    by (simp add: mem_indices)
  with loop show ?thesis by blast
qed

lemma mixture_loop_result:
  assumes locs: "\<And>i j. i < W \<Longrightarrow> j < H \<Longrightarrow>
      cartesian_locations rb (i, j) = Some (index_to_cartesian rb (i, j))"
  shows "\<exists>rs. mixture_loop rb gm (W, H) = Inr rs
     \<and> (\<forall>i j. i < W \<and> j < H \<longrightarrow>
           map (\<lambda>r. item (snd r) i j) rs =
           map (\<lambda>g. cell_mass g (index_to_cartesian rb (i, j))
                      (pixel_width rb) (pixel_height rb)) gm)"
proof (induction gm)
  case Nil
  show ?case by simp
next
  case (Cons g gs)
  from component_raster[of W H rb g, OF locs] obtain s p where
    first: "pixel_loop rb g (indices W H) (empty_cdf_state, zeros (W, H)) = Inr (s, p)"
    and items: "\<forall>i j. i < W \<and> j < H \<longrightarrow>
           item p i j = cell_mass g (index_to_cartesian rb (i, j))
                          (pixel_width rb) (pixel_height rb)"
    by blast
  from Cons.IH obtain rs where
    rest: "mixture_loop rb gs (W, H) = Inr rs"
    and rest_items: "\<forall>i j. i < W \<and> j < H \<longrightarrow>
           map (\<lambda>r. item (snd r) i j) rs =
           map (\<lambda>g. cell_mass g (index_to_cartesian rb (i, j))
                      (pixel_width rb) (pixel_height rb)) gs"
    by blast
  have "mixture_loop rb (g # gs) (W, H) = Inr ((s, p) # rs)"
    by (simp add: first rest)
  moreover have "\<forall>i j. i < W \<and> j < H \<longrightarrow>
           map (\<lambda>r. item (snd r) i j) ((s, p) # rs) =
           map (\<lambda>g. cell_mass g (index_to_cartesian rb (i, j))
                      (pixel_width rb) (pixel_height rb)) (g # gs)"
    using items rest_items by simp
  ultimately show ?case by blast
qed

lemma index_to_cartesian_data:
  "index_to_cartesian (rb\<lparr>data := d\<rparr>) = index_to_cartesian rb"
  by (simp add: fun_eq_iff index_to_cartesian_def)

lemma index_to_polar_data:
  "index_to_polar tp (rb\<lparr>data := d\<rparr>) = index_to_polar tp rb"
  by (simp add: fun_eq_iff index_to_polar_def index_to_cartesian_def)

lemma from_gaussian_mixture_result:
  assumes "0 < W" "0 < H"
  shows "\<exists>rb0 rs. RasterBand_init tp (zeros (W, H)) org w h = Inr rb0
     \<and> mixture_loop rb0 gm (W, H) = Inr rs
     \<and> from_gaussian_mixture tp gm org w h (W, H)
          = Inr (rb0\<lparr>data := sum_axis0 (W, H) (map snd rs)\<rparr>)
     \<and> (\<forall>i j. i < W \<and> j < H \<longrightarrow>
           map (\<lambda>r. item (snd r) i j) rs =
           map (\<lambda>g. cell_mass g (index_to_cartesian rb0 (i, j))
                      (pixel_width rb0) (pixel_height rb0)) gm)"
proof -
  have "\<exists>rb0. RasterBand_init tp (zeros (W, H)) org w h = Inr rb0"
    by (rule init_succeeds) (simp_all add: zeros_def assms)
  then obtain rb0 where init: "RasterBand_init tp (zeros (W, H)) org w h = Inr rb0"
    by blast
  have locs: "\<And>i j. i < W \<Longrightarrow> j < H \<Longrightarrow>
      cartesian_locations rb0 (i, j) = Some (index_to_cartesian rb0 (i, j))"
    by (simp add: init_locations(1)[OF init] zeros_def)
  from mixture_loop_result[of W H rb0 gm, OF locs] obtain rs where
    loop: "mixture_loop rb0 gm (W, H) = Inr rs"
    and items: "\<forall>i j. i < W \<and> j < H \<longrightarrow>
           map (\<lambda>r. item (snd r) i j) rs =
           map (\<lambda>g. cell_mass g (index_to_cartesian rb0 (i, j))
                      (pixel_width rb0) (pixel_height rb0)) gm"
    by blast
  have "from_gaussian_mixture tp gm org w h (W, H)
          = Inr (rb0\<lparr>data := sum_axis0 (W, H) (map snd rs)\<rparr>)"
    by (simp add: from_gaussian_mixture_def init loop)
  with init loop items show ?thesis by blast
qed

text \<open>
  Claim C1. For every mixture, origin, width, height and resolution (W, H) with W and H
  positive, \<open>from_gaussian_mixture\<close> returns a raster band of that geometry whose data at
  each cell (i, j) is the sum over the components of
  weight * (CDF(top right) - CDF(top left) - CDF(bottom right) + CDF(bottom left)),
  the corners being the cartesian center of the cell plus or minus half the pixel width
  and half the pixel height. The right-hand side evaluates every CDF directly at the
  corner: the dict of cached values changes no value.
\<close>

theorem from_gaussian_mixture_cell_mass:
  assumes "0 < W" "0 < H"
  shows "\<exists>rb. from_gaussian_mixture to_polar gm org w h (W, H) = Inr rb
     \<and> shape0 (data rb) = W \<and> shape1 (data rb) = H
     \<and> origin rb = org \<and> width rb = w \<and> height rb = h
     \<and> pixel_width rb = w / real W \<and> pixel_height rb = h / real H
     \<and> center_x rb = w / 2 \<and> center_y rb = h / 2
     \<and> (\<forall>i j. i < W \<and> j < H \<longrightarrow>
           item (data rb) i j =
             (\<Sum>g\<leftarrow>gm. weight g *
                (cdf g (east (index_to_cartesian rb (i, j)) + pixel_width rb / 2,
                        north (index_to_cartesian rb (i, j)) + pixel_height rb / 2)
                 - cdf g (east (index_to_cartesian rb (i, j)) - pixel_width rb / 2,
                          north (index_to_cartesian rb (i, j)) + pixel_height rb / 2)
                 - cdf g (east (index_to_cartesian rb (i, j)) + pixel_width rb / 2,
                          north (index_to_cartesian rb (i, j)) - pixel_height rb / 2)
                 + cdf g (east (index_to_cartesian rb (i, j)) - pixel_width rb / 2,
                          north (index_to_cartesian rb (i, j)) - pixel_height rb / 2))))"
proof -
  from from_gaussian_mixture_result[OF assms, of to_polar org w h gm] obtain rb0 rs where
    init: "RasterBand_init to_polar (zeros (W, H)) org w h = Inr rb0"
    and loop: "mixture_loop rb0 gm (W, H) = Inr rs"
    and result: "from_gaussian_mixture to_polar gm org w h (W, H)
          = Inr (rb0\<lparr>data := sum_axis0 (W, H) (map snd rs)\<rparr>)"
    and items: "\<forall>i j. i < W \<and> j < H \<longrightarrow>
           map (\<lambda>r. item (snd r) i j) rs =
           map (\<lambda>g. cell_mass g (index_to_cartesian rb0 (i, j))
                      (pixel_width rb0) (pixel_height rb0)) gm"
    by blast
  let ?rb = "rb0\<lparr>data := sum_axis0 (W, H) (map snd rs)\<rparr>"
  note f = init_fields[OF init]
  have fields: "shape0 (data ?rb) = W" "shape1 (data ?rb) = H"
    "origin ?rb = org" "width ?rb = w" "height ?rb = h"
    "pixel_width ?rb = w / real W" "pixel_height ?rb = h / real H"
    "center_x ?rb = w / 2" "center_y ?rb = h / 2"
    by (simp_all add: sum_axis0_def f zeros_def)
  have cells: "\<forall>i j. i < W \<and> j < H \<longrightarrow>
      item (data ?rb) i j =
        (\<Sum>g\<leftarrow>gm. cell_mass g (index_to_cartesian ?rb (i, j))
                   (pixel_width ?rb) (pixel_height ?rb))"
  proof (intro allI impI)
    fix i j assume "i < W \<and> j < H"
    with items have "map (\<lambda>r. item (snd r) i j) rs =
           map (\<lambda>g. cell_mass g (index_to_cartesian rb0 (i, j))
                      (pixel_width rb0) (pixel_height rb0)) gm"
      by blast
    then show "item (data ?rb) i j =
        (\<Sum>g\<leftarrow>gm. cell_mass g (index_to_cartesian ?rb (i, j))
                   (pixel_width ?rb) (pixel_height ?rb))"
      by (simp add: sum_axis0_def index_to_cartesian_data comp_def)
  qed
  show ?thesis
    using result fields cells unfolding cell_mass_def by blast
qed

text \<open>
  Claim C10. For a mixture with no component and a resolution (W, H) with W and H
  positive, \<open>from_gaussian_mixture\<close> returns a raster band whose data is the all-zero
  grid of shape (W, H), and no CDF is evaluated during the run.
\<close>

theorem from_empty_mixture:
  assumes "0 < W" "0 < H"
  shows "\<exists>rb. from_gaussian_mixture to_polar [] org w h (W, H) = Inr rb
     \<and> data rb = zeros (W, H)
     \<and> from_gaussian_mixture_cdf_calls to_polar [] org w h (W, H) = Inr []"
proof -
  have "\<exists>rb0. RasterBand_init to_polar (zeros (W, H)) org w h = Inr rb0"
    by (rule init_succeeds) (simp_all add: zeros_def assms)
  then obtain rb0 where init: "RasterBand_init to_polar (zeros (W, H)) org w h = Inr rb0"
    by blast
  have "from_gaussian_mixture to_polar [] org w h (W, H)
          = Inr (rb0\<lparr>data := sum_axis0 (W, H) []\<rparr>)"
    by (simp add: from_gaussian_mixture_def init)
  moreover have "sum_axis0 (W, H) [] = zeros (W, H)"
    by (simp add: sum_axis0_def zeros_def)
  moreover have "from_gaussian_mixture_cdf_calls to_polar [] org w h (W, H) = Inr []"
    by (simp add: from_gaussian_mixture_cdf_calls_def init)
  ultimately show ?thesis by simp
qed


theorem from_gaussian_mixture_cell_mass_witness:
  "\<exists>rb. from_gaussian_mixture recorded_to_polar
          [\<lparr>weight = 1, cdf = (\<lambda>p. fst p * snd p)\<rparr>, \<lparr>weight = 2, cdf = (\<lambda>p. fst p + snd p)\<rparr>]
          (PolarLocation 0 0) 10 10 (2, 2) = Inr rb
      \<and> shape0 (data rb) = 2 \<and> shape1 (data rb) = 2
      \<and> item (data rb) 0 0 = 25 \<and> item (data rb) 1 1 = 25"
proof -
  let ?gm = "[\<lparr>weight = 1, cdf = (\<lambda>p. fst p * snd p)\<rparr>,
              \<lparr>weight = 2, cdf = (\<lambda>p::real \<times> real. fst p + snd p)\<rparr>]"
  have pos: "(0::nat) < 2" by simp
  from from_gaussian_mixture_cell_mass[OF pos pos, of recorded_to_polar ?gm "PolarLocation 0 0" 10 10]
  obtain rb where
    result: "from_gaussian_mixture recorded_to_polar ?gm (PolarLocation 0 0) 10 10 (2, 2) = Inr rb"
    and shape: "shape0 (data rb) = 2" "shape1 (data rb) = 2"
    and geometry: "pixel_width rb = 10 / real 2" "pixel_height rb = 10 / real 2"
      "center_x rb = 10 / 2" "center_y rb = 10 / 2"
    and cells: "\<forall>i j. i < 2 \<and> j < 2 \<longrightarrow>
           item (data rb) i j =
             (\<Sum>g\<leftarrow>?gm. weight g *
                (cdf g (east (index_to_cartesian rb (i, j)) + pixel_width rb / 2,
                        north (index_to_cartesian rb (i, j)) + pixel_height rb / 2)
                 - cdf g (east (index_to_cartesian rb (i, j)) - pixel_width rb / 2,
                          north (index_to_cartesian rb (i, j)) + pixel_height rb / 2)
                 - cdf g (east (index_to_cartesian rb (i, j)) + pixel_width rb / 2,
                          north (index_to_cartesian rb (i, j)) - pixel_height rb / 2)
                 + cdf g (east (index_to_cartesian rb (i, j)) - pixel_width rb / 2,
                          north (index_to_cartesian rb (i, j)) - pixel_height rb / 2)))"
    by blast
  have "(0::nat) < 2 \<and> (0::nat) < 2" "(1::nat) < 2 \<and> (1::nat) < 2" by simp_all
  with cells have "item (data rb) 0 0 = 25" "item (data rb) 1 1 = 25"
    by (simp_all add: index_to_cartesian_def geometry)
  with result shape show ?thesis by blast
qed

theorem from_empty_mixture_witness:
  "\<exists>rb. from_gaussian_mixture recorded_to_polar [] (PolarLocation 0 0) 10 10 (2, 3) = Inr rb
      \<and> data rb = zeros (2, 3)
      \<and> from_gaussian_mixture_cdf_calls recorded_to_polar [] (PolarLocation 0 0) 10 10 (2, 3)
          = Inr []"
  by (rule from_empty_mixture) simp_all

lemma init_consistent:
  "RasterBand_init tp d org w h = Inr rb \<Longrightarrow> locations_consistent tp rb"
  by (simp add: locations_consistent_def init_locations init_fields(1))

lemma consistent_data_update:
  assumes "locations_consistent tp rb"
    and "shape0 d = shape0 (data rb)" "shape1 d = shape1 (data rb)"
  shows "locations_consistent tp (rb\<lparr>data := d\<rparr>)"
  using assms
  by (simp add: locations_consistent_def index_to_cartesian_data index_to_polar_data)

lemma from_gaussian_mixture_caches:
  assumes "from_gaussian_mixture tp gm org w h res = Inr rb"
  shows "locations_consistent tp rb
     \<and> (\<exists>rb0. RasterBand_init tp (zeros res) org w h = Inr rb0
          \<and> cartesian_locations rb = cartesian_locations rb0
          \<and> polar_locations rb = polar_locations rb0)"
proof -
  from assms obtain rb0 rs where
    init: "RasterBand_init tp (zeros res) org w h = Inr rb0"
    and loop: "mixture_loop rb0 gm res = Inr rs"
    and rb: "rb = rb0\<lparr>data := sum_axis0 res (map snd rs)\<rparr>"
    by (auto simp: from_gaussian_mixture_def split: sum.splits)
  have "locations_consistent tp rb"
    unfolding rb
    by (rule consistent_data_update[OF init_consistent[OF init]])
      (simp_all add: sum_axis0_def init_fields(1)[OF init] zeros_def)
  moreover have "cartesian_locations rb = cartesian_locations rb0"
    "polar_locations rb = polar_locations rb0"
    by (simp_all add: rb)
  ultimately show ?thesis using init by blast
qed

text \<open>
  Claim C9. A constructed raster band maps exactly the indices of its grid, in both
  dicts, to what \<open>index_to_cartesian\<close> and \<open>index_to_polar\<close> compute on demand. The
  operations keep it so: \<open>from_gaussian_mixture\<close> returns the dicts built by the
  constructor, still consistent with the data it assigns; \<open>split\<close> returns the raster
  band itself or freshly constructed quadrants, each consistent. The exporters return
  an image or a text and no raster band.
\<close>

theorem location_caches_consistent:
  "(RasterBand_init to_polar d org w h = Inr rb \<longrightarrow> locations_consistent to_polar rb)
   \<and> (from_gaussian_mixture to_polar gm org w h res = Inr rb \<longrightarrow>
        locations_consistent to_polar rb
        \<and> (\<exists>rb0. RasterBand_init to_polar (zeros res) org w h = Inr rb0
             \<and> cartesian_locations rb = cartesian_locations rb0
             \<and> polar_locations rb = polar_locations rb0))
   \<and> (split to_polar rb0 = Inr (Unsplit rb) \<longrightarrow> rb = rb0)
   \<and> (split to_polar rb0 = Inr (Quadrants qs) \<and> q \<in> set (concat qs) \<longrightarrow>
        locations_consistent to_polar q)"
proof (intro conjI impI)
  assume "RasterBand_init to_polar d org w h = Inr rb"
  then show "locations_consistent to_polar rb" by (rule init_consistent)
next
  assume "from_gaussian_mixture to_polar gm org w h res = Inr rb"
  then show "locations_consistent to_polar rb"
    by (rule from_gaussian_mixture_caches[THEN conjunct1])
next
  assume "from_gaussian_mixture to_polar gm org w h res = Inr rb"
  then show "\<exists>rb0. RasterBand_init to_polar (zeros res) org w h = Inr rb0
             \<and> cartesian_locations rb = cartesian_locations rb0
             \<and> polar_locations rb = polar_locations rb0"
    by (rule from_gaussian_mixture_caches[THEN conjunct2])
next
  assume "split to_polar rb0 = Inr (Unsplit rb)"
  then show "rb = rb0" by (rule split_unsplit_same)
next
  assume "split to_polar rb0 = Inr (Quadrants qs) \<and> q \<in> set (concat qs)"
  then obtain d' org' w' h' where "RasterBand_init to_polar d' org' w' h' = Inr q"
    using split_results_constructed by blast
  then show "locations_consistent to_polar q" by (rule init_consistent)
qed


theorem location_caches_consistent_witness:
  "(\<exists>rb. RasterBand_init recorded_to_polar (array [[1, 2], [3, 4]]) (PolarLocation 0 0) 10 10
            = Inr rb
       \<and> locations_consistent recorded_to_polar rb
       \<and> cartesian_locations rb (1, 1) = Some \<lparr>east = 5 / 2, north = - 5 / 2\<rparr>
       \<and> polar_locations rb (1, 1)
            = Some (Converted \<lparr>east = 5 / 2, north = - 5 / 2\<rparr> (PolarLocation 0 0))
       \<and> cartesian_locations rb (2, 0) = None \<and> polar_locations rb (0, 2) = None)
   \<and> (\<exists>rb. from_gaussian_mixture recorded_to_polar [\<lparr>weight = 1, cdf = (\<lambda>p. fst p * snd p)\<rparr>]
              (PolarLocation 0 0) 10 10 (2, 2) = Inr rb
         \<and> locations_consistent recorded_to_polar rb)
   \<and> (\<exists>rb q00 q01 q10 q11.
         RasterBand_init recorded_to_polar (array [[1, 2], [3, 4]]) (PolarLocation 0 0) 10 10
            = Inr rb
         \<and> split recorded_to_polar rb = Inr (Quadrants [[q00, q01], [q10, q11]])
         \<and> locations_consistent recorded_to_polar q00
         \<and> locations_consistent recorded_to_polar q11)
   \<and> (\<exists>rb rb'. RasterBand_init recorded_to_polar (zeros (1, 3)) (PolarLocation 0 0) 10 10 = Inr rb
         \<and> split recorded_to_polar rb = Inr (Unsplit rb') \<and> rb' = rb)"
proof -
  have "\<exists>rb. RasterBand_init recorded_to_polar (array [[1, 2], [3, 4]]) (PolarLocation 0 0) 10 10
          = Inr rb"
    by (rule init_succeeds) (simp_all add: array_def)
  then obtain rb where init:
    "RasterBand_init recorded_to_polar (array [[1, 2], [3, 4]]) (PolarLocation 0 0) 10 10 = Inr rb"
    by blast
  note f = init_fields[OF init]
  have shape: "shape0 (data rb) = 2" "shape1 (data rb) = 2"
    by (simp_all add: f(1) array_def)
  have consistent: "locations_consistent recorded_to_polar rb"
    using location_caches_consistent[where to_polar = recorded_to_polar
        and d = "array [[1, 2], [3, 4]]" and org = "PolarLocation 0 0" and w = 10 and h = 10
        and rb = rb] init
    by blast
  then have lookups: "cartesian_locations rb (1, 1) = Some \<lparr>east = 5 / 2, north = - 5 / 2\<rparr>"
    "polar_locations rb (1, 1)
       = Some (Converted \<lparr>east = 5 / 2, north = - 5 / 2\<rparr> (PolarLocation 0 0))"
    "cartesian_locations rb (2, 0) = None" "polar_locations rb (0, 2) = None"
    by (simp_all add: locations_consistent_def shape index_to_polar_def index_to_cartesian_def
        f(2,5,6,7,8) recorded_to_polar_def array_def)
  from init consistent lookups have first:
    "\<exists>rb. RasterBand_init recorded_to_polar (array [[1, 2], [3, 4]]) (PolarLocation 0 0) 10 10
            = Inr rb
       \<and> locations_consistent recorded_to_polar rb
       \<and> cartesian_locations rb (1, 1) = Some \<lparr>east = 5 / 2, north = - 5 / 2\<rparr>
       \<and> polar_locations rb (1, 1)
            = Some (Converted \<lparr>east = 5 / 2, north = - 5 / 2\<rparr> (PolarLocation 0 0))
       \<and> cartesian_locations rb (2, 0) = None \<and> polar_locations rb (0, 2) = None"
    by blast
  let ?gm = "[\<lparr>weight = 1, cdf = (\<lambda>p::real \<times> real. fst p * snd p)\<rparr>]"
  have "\<exists>rb. from_gaussian_mixture recorded_to_polar ?gm (PolarLocation 0 0) 10 10 (2, 2) = Inr rb"
    using from_gaussian_mixture_result[of 2 2 recorded_to_polar "PolarLocation 0 0" 10 10 ?gm]
    by auto
  then obtain rbm where mixture:
    "from_gaussian_mixture recorded_to_polar ?gm (PolarLocation 0 0) 10 10 (2, 2) = Inr rbm"
    by blast
  have second: "\<exists>rb. from_gaussian_mixture recorded_to_polar ?gm (PolarLocation 0 0) 10 10 (2, 2)
          = Inr rb \<and> locations_consistent recorded_to_polar rb"
    using location_caches_consistent[where to_polar = recorded_to_polar and rb = rbm
        and gm = ?gm and org = "PolarLocation 0 0" and w = 10 and h = 10 and res = "(2, 2)"]
      mixture
    by blast
  have big: "1 < shape0 (data rb)" "1 < shape1 (data rb)" by (simp_all add: shape)
  from split_quadrants[OF big, of recorded_to_polar] obtain q00 q01 q10 q11 where
    s: "split recorded_to_polar rb = Inr (Quadrants [[q00, q01], [q10, q11]])"
    by blast
  have "q00 \<in> set (concat [[q00, q01], [q10, q11]])" "q11 \<in> set (concat [[q00, q01], [q10, q11]])"
    by simp_all
  with s have "locations_consistent recorded_to_polar q00"
    "locations_consistent recorded_to_polar q11"
    using location_caches_consistent[where to_polar = recorded_to_polar and ?rb0.0 = rb
        and qs = "[[q00, q01], [q10, q11]]" and q = q00]
      location_caches_consistent[where to_polar = recorded_to_polar and ?rb0.0 = rb
        and qs = "[[q00, q01], [q10, q11]]" and q = q11]
    by blast+
  with init s have third: "\<exists>rb q00 q01 q10 q11.
         RasterBand_init recorded_to_polar (array [[1, 2], [3, 4]]) (PolarLocation 0 0) 10 10
            = Inr rb
         \<and> split recorded_to_polar rb = Inr (Quadrants [[q00, q01], [q10, q11]])
         \<and> locations_consistent recorded_to_polar q00
         \<and> locations_consistent recorded_to_polar q11"
    by blast
  have "\<exists>rb1. RasterBand_init recorded_to_polar (zeros (1, 3)) (PolarLocation 0 0) 10 10 = Inr rb1"
    by (rule init_succeeds) (simp_all add: zeros_def)
  then obtain rb1 where init1:
    "RasterBand_init recorded_to_polar (zeros (1, 3)) (PolarLocation 0 0) 10 10 = Inr rb1"
    by blast
  have unsplit: "split recorded_to_polar rb1 = Inr (Unsplit rb1)"
    by (rule split_base) (simp add: init_fields(1)[OF init1] zeros_def)
  with init1 have fourth:
    "\<exists>rb rb'. RasterBand_init recorded_to_polar (zeros (1, 3)) (PolarLocation 0 0) 10 10 = Inr rb
         \<and> split recorded_to_polar rb = Inr (Unsplit rb') \<and> rb' = rb"
    using location_caches_consistent[where to_polar = recorded_to_polar and rb = rb1
        and ?rb0.0 = rb1]
    by blast
  from first second third fourth show ?thesis by blast
qed

section \<open>Exporter: proofs\<close>














lemma fixed_digits_numeral:
  "fixed_digits (numeral k) n = fixed_digits (pred_numeral k) (n div 10) @ [digit_char (n mod 10)]"
proof -
  have "numeral k = Suc (pred_numeral k)" by (rule numeral_eq_Suc)
  then show ?thesis by (simp only: fixed_digits.simps)
qed

lemma format_20f_half: "format_20f (1 / 2) = ''0.50000000000000000000''"
proof -
  have r: "round_half_even (\<bar>1 / 2\<bar> * 10 ^ 20) = 50000000000000000000"
    by (simp add: round_half_even_def Let_def)
  have f: "fixed_digits 20 50000000000000000000 = ''50000000000000000000''"
    by (simp add: fixed_digits_numeral digit_char_def)
  show ?thesis
    unfolding format_20f_def Let_def r
    by (simp add: f digit_char_def)
qed

lemma single_cell_rows:
  assumes init: "RasterBand_init tp (array [[1 / 2]]) org w h = Inr rb"
  shows "save_as_csv tp str_latitude str_longitude rb (Some t) False before
     = Inr (''latitude, longitude, value, datetime'' @ newline
            @ str_latitude (tp \<lparr>east = 0, north = 0\<rparr> org) @ '', ''
            @ str_longitude (tp \<lparr>east = 0, north = 0\<rparr> org)
            @ '', 0.50000000000000000000, '' @ t @ newline @ newline)"
proof -
  note f = init_fields[OF init]
  have shape: "shape0 (data rb) = 1" "shape1 (data rb) = 1"
    by (simp_all add: f(1) array_def)
  have idx: "indices (Suc 0) (Suc 0) = [(0, 0)]" by (simp add: indices_def)
  have center: "index_to_cartesian rb (0, 0) = \<lparr>east = 0, north = 0\<rparr>"
    by (simp add: index_to_cartesian_def f(5,6,7,8) array_def)
  have v: "getitem (data rb) (0, 0) = Inr (1 / 2)"
    by (simp add: getitem_def f(1) array_def)
  have row: "csv_row tp str_latitude str_longitude rb (Some t) (0, 0)
     = Inr (str_latitude (tp \<lparr>east = 0, north = 0\<rparr> org) @ '', ''
            @ str_longitude (tp \<lparr>east = 0, north = 0\<rparr> org)
            @ '', '' @ ''0.50000000000000000000'' @ '', '' @ t @ newline @ newline)"
    by (simp add: csv_row_def Let_def index_to_polar_def center f(2) v format_20f_half)
  show ?thesis
    by (simp add: save_as_csv_def Let_def shape idx row)
qed

text \<open>
  The text \<open>save_as_csv\<close> leaves in the file, in general: what was there when appending,
  the header otherwise, then the rows of the cells in the order of the indices.
\<close>

lemma csv_rows_content:
  assumes "\<And>idx. idx \<in> set idxs \<Longrightarrow> fst idx < shape0 (data rb) \<and> snd idx < shape1 (data rb)"
  shows "csv_rows tp str_latitude str_longitude rb time idxs csv_file =
     Inr (csv_file @ concat (map (\<lambda>idx.
            str_latitude (index_to_polar tp rb idx) @ '', ''
            @ str_longitude (index_to_polar tp rb idx) @ '', ''
            @ format_20f (item (data rb) (fst idx) (snd idx))
            @ (case time of None \<Rightarrow> [] | Some t \<Rightarrow> '', '' @ t @ newline)
            @ newline) idxs))"
  using assms
proof (induction idxs arbitrary: csv_file)
  case Nil
  show ?case by simp
next
  case (Cons idx rest)
  have here: "fst idx < shape0 (data rb) \<and> snd idx < shape1 (data rb)"
    using Cons.prems[of idx] by simp
  have row: "csv_row tp str_latitude str_longitude rb time idx =
     Inr (str_latitude (index_to_polar tp rb idx) @ '', ''
            @ str_longitude (index_to_polar tp rb idx) @ '', ''
            @ format_20f (item (data rb) (fst idx) (snd idx))
            @ (case time of None \<Rightarrow> [] | Some t \<Rightarrow> '', '' @ t @ newline)
            @ newline)"
    using here by (simp add: csv_row_def Let_def getitem_def)
  have rest: "\<And>i. i \<in> set rest \<Longrightarrow> fst i < shape0 (data rb) \<and> snd i < shape1 (data rb)"
    using Cons.prems by simp
  show ?case
    by (simp add: row Cons.IH[OF rest])
qed

lemma save_as_csv_content:
  "save_as_csv tp str_latitude str_longitude rb time append_flag before =
     Inr ((if append_flag then (case before of None \<Rightarrow> [] | Some c \<Rightarrow> c)
           else ''latitude, longitude, value''
                  @ (if time \<noteq> None then '', datetime'' else []) @ newline)
          @ concat (map (\<lambda>idx.
              str_latitude (index_to_polar tp rb idx) @ '', ''
              @ str_longitude (index_to_polar tp rb idx) @ '', ''
              @ format_20f (item (data rb) (fst idx) (snd idx))
              @ (case time of None \<Rightarrow> [] | Some t \<Rightarrow> '', '' @ t @ newline)
              @ newline) (indices (shape0 (data rb)) (shape1 (data rb)))))"
proof -
  have range: "\<And>idx. idx \<in> set (indices (shape0 (data rb)) (shape1 (data rb))) \<Longrightarrow>
      fst idx < shape0 (data rb) \<and> snd idx < shape1 (data rb)"
    using mem_indices[of _ _ "shape0 (data rb)" "shape1 (data rb)"] by (metis prod.collapse)
  show ?thesis
    by (simp add: save_as_csv_def Let_def csv_rows_content[OF range])
qed

text \<open>
  Claim C6 at its scenario: a 1 by 1 raster band with data [[0.5]] saved with the time
  "2024-01-01T00:00Z" and no appending. The file holds the header with the datetime
  column and the data row, whose value is printed as 0.50000000000000000000; the row
  ends with the newline written together with the time and then with the newline
  written for every row, so an empty third line follows it. The second statement counts
  the lines when both coordinates print as 0.0.
\<close>

theorem save_as_csv_writes_three_lines:
  "bind_error (RasterBand_init to_polar (array [[1 / 2]]) org w h)
     (\<lambda>rb. save_as_csv to_polar str_latitude str_longitude rb
              (Some ''2024-01-01T00:00Z'') False before)
   = Inr (''latitude, longitude, value, datetime'' @ newline
          @ str_latitude (to_polar \<lparr>east = 0, north = 0\<rparr> org) @ '', ''
          @ str_longitude (to_polar \<lparr>east = 0, north = 0\<rparr> org)
          @ '', 0.50000000000000000000, 2024-01-01T00:00Z'' @ newline @ newline)
   \<and> map_sum id file_lines
        (bind_error
           (RasterBand_init recorded_to_polar (array [[1 / 2]]) (PolarLocation 0 0) 10 10)
           (\<lambda>rb. save_as_csv recorded_to_polar (\<lambda>p. ''0.0'') (\<lambda>p. ''0.0'') rb
                    (Some ''2024-01-01T00:00Z'') False None))
      = Inr [''latitude, longitude, value, datetime'',
             ''0.0, 0.0, 0.50000000000000000000, 2024-01-01T00:00Z'',
             '''']"
proof -
  have "\<exists>rb. RasterBand_init to_polar (array [[1 / 2]]) org w h = Inr rb"
    by (rule init_succeeds) (simp_all add: array_def)
  then obtain rb where init: "RasterBand_init to_polar (array [[1 / 2]]) org w h = Inr rb"
    by blast
  have general: "bind_error (RasterBand_init to_polar (array [[1 / 2]]) org w h)
     (\<lambda>rb. save_as_csv to_polar str_latitude str_longitude rb
              (Some ''2024-01-01T00:00Z'') False before)
   = Inr (''latitude, longitude, value, datetime'' @ newline
          @ str_latitude (to_polar \<lparr>east = 0, north = 0\<rparr> org) @ '', ''
          @ str_longitude (to_polar \<lparr>east = 0, north = 0\<rparr> org)
          @ '', 0.50000000000000000000, 2024-01-01T00:00Z'' @ newline @ newline)"
    unfolding bind_error_Inr[OF init] single_cell_rows[OF init] by simp
  have "\<exists>rb. RasterBand_init recorded_to_polar (array [[1 / 2]]) (PolarLocation 0 0) 10 10 = Inr rb"
    by (rule init_succeeds) (simp_all add: array_def)
  then obtain rb0 where init0:
    "RasterBand_init recorded_to_polar (array [[1 / 2]]) (PolarLocation 0 0) 10 10 = Inr rb0"
    by blast
  have concrete: "map_sum id file_lines
        (bind_error
           (RasterBand_init recorded_to_polar (array [[1 / 2]]) (PolarLocation 0 0) 10 10)
           (\<lambda>rb. save_as_csv recorded_to_polar (\<lambda>p. ''0.0'') (\<lambda>p. ''0.0'') rb
                    (Some ''2024-01-01T00:00Z'') False None))
      = Inr [''latitude, longitude, value, datetime'',
             ''0.0, 0.0, 0.50000000000000000000, 2024-01-01T00:00Z'',
             '''']"
    unfolding bind_error_Inr[OF init0] single_cell_rows[OF init0]
    by (simp add: file_lines_def newline_def)
  from general concrete show ?thesis by (rule conjI)
qed

end
